theory Spec2Isabelle
  imports Complex_Main "HOL-Library.Multiset" "HOL-Library.AList"
begin

section \<open>Event evaluation of caits.performance\<close>

text \<open>
  The orchestration module \<^verbatim>\<open>caits/performance/evaluation.py\<close> imports the event
  matcher (\<^verbatim>\<open>.detection.classify_events\<close>) and the metric functions
  (\<^verbatim>\<open>.metrics.detection_ratio\<close>, \<^verbatim>\<open>reliability\<close>, \<^verbatim>\<open>erer\<close>) from sibling modules whose
  text is not part of the sources at hand. Those are modelled from the specification
  (sections 4.5 and 4.6); the orchestrator itself is modelled from its code further below.
  Times and probabilities are exact reals, not IEEE doubles.
\<close>

subsection \<open>Events and temporal IoU\<close>

text \<open>
  Modelled from the spec: the events that \<^verbatim>\<open>classify_events\<close> of the absent module
  \<^verbatim>\<open>detection.py\<close> takes (section 3), a half-open interval \<open>[start, stop)\<close> tagged with a
  class label.
\<close>

record event =
  start :: real
  stop :: real
  label :: string

text \<open>
  Modelled from the spec: the overlap of two intervals in the IoU of the absent module
  \<^verbatim>\<open>detection.py\<close> (section 4.5), \<open>overlap = max(0, min(e1,e2) - max(s1,s2))\<close>.
\<close>

definition overlap :: "real \<Rightarrow> real \<Rightarrow> real \<Rightarrow> real \<Rightarrow> real" where
  "overlap s1 e1 s2 e2 = max 0 (min e1 e2 - max s1 s2)"

text \<open>
  Modelled from the spec: the union of two intervals in the IoU of the absent module
  \<^verbatim>\<open>detection.py\<close> (section 4.5), \<open>union = (e1-s1) + (e2-s2) - overlap\<close>.
\<close>

definition union_len :: "real \<Rightarrow> real \<Rightarrow> real \<Rightarrow> real \<Rightarrow> real" where
  "union_len s1 e1 s2 e2 = (e1 - s1) + (e2 - s2) - overlap s1 e1 s2 e2"

text \<open>
  Modelled from the spec: the IoU of the absent module \<^verbatim>\<open>detection.py\<close> (section 4.5),
  \<open>IoU = overlap / union\<close>. The quotient is only taken for a non-zero union; a zero union
  (which no pair of intervals with \<open>start < stop\<close> has) is given IoU 0, in line with "IoU
  is 0 when intervals do not overlap".
\<close>

definition iou :: "real \<Rightarrow> real \<Rightarrow> real \<Rightarrow> real \<Rightarrow> real" where
  "iou s1 e1 s2 e2 =
     (if union_len s1 e1 s2 e2 = 0 then 0
      else overlap s1 e1 s2 e2 / union_len s1 e1 s2 e2)"

text \<open>
  Modelled from the spec: the IoU of two events in the absent module \<^verbatim>\<open>detection.py\<close>; the
  class labels play no part in it.
\<close>

definition event_iou :: "event \<Rightarrow> event \<Rightarrow> real" where
  "event_iou a b = iou (start a) (stop a) (start b) (stop b)"

subsection \<open>Trust metrics\<close>

text \<open>
  Modelled from the spec: the result of a metric of the absent module \<^verbatim>\<open>metrics.py\<close>
  (sections 4.6 and 7), either a ratio or the distinguished not-applicable value; it is a
  value, not an exception.
\<close>

datatype metric = NotApplicable | Ratio real

text \<open>
  Modelled from the spec: \<^verbatim>\<open>detection_ratio\<close> of the absent module \<^verbatim>\<open>metrics.py\<close>
  (section 4.6), \<open>C / (C + D + S)\<close> with the zero-denominator guard. The arguments are in
  the order of the call in \<^verbatim>\<open>robustness_analysis\<close>,
  \<^verbatim>\<open>detection_ratio(corrects, deletions, substitutions)\<close>.
\<close>

definition detection_ratio :: "nat \<Rightarrow> nat \<Rightarrow> nat \<Rightarrow> metric" where
  "detection_ratio c d s =
     (if c + d + s = 0 then NotApplicable
      else Ratio (real c / real (c + d + s)))"

text \<open>
  Modelled from the spec: \<^verbatim>\<open>reliability\<close> of the absent module \<^verbatim>\<open>metrics.py\<close> (section 4.6),
  \<open>C / (C + I)\<close> with the same guard; called as \<^verbatim>\<open>reliability(corrects, insertions)\<close>.
\<close>

definition reliability :: "nat \<Rightarrow> nat \<Rightarrow> metric" where
  "reliability c i =
     (if c + i = 0 then NotApplicable
      else Ratio (real c / real (c + i)))"

text \<open>
  Modelled from the spec: \<^verbatim>\<open>erer\<close>, the event error rate, of the absent module
  \<^verbatim>\<open>metrics.py\<close> (section 4.6), \<open>(S + D + I) / (C + S + D)\<close> with the same guard; called as
  \<^verbatim>\<open>erer(deletions, insertions, substitutions, corrects)\<close>.
\<close>

definition erer :: "nat \<Rightarrow> nat \<Rightarrow> nat \<Rightarrow> nat \<Rightarrow> metric" where
  "erer d i s c =
     (if c + s + d = 0 then NotApplicable
      else Ratio (real (s + d + i) / real (c + s + d)))"

subsection \<open>Event matching\<close>

text \<open>
  Modelled from the spec: the classification outcome of the absent \<^verbatim>\<open>classify_events\<close>
  (section 3). The buckets hold positions in the two input lists, so that equal events at
  different positions stay apart. A correct or substituted match is the pair
  (ground-truth position, predicted position).
\<close>

record outcome =
  correct_pairs :: "(nat \<times> nat) list"
  substitution_pairs :: "(nat \<times> nat) list"
  deleted :: "nat list"
  inserted :: "nat list"

text \<open>Modelled from the spec: the outcome before any event of the absent matcher is classified.\<close>

definition no_outcome :: outcome where
  "no_outcome = \<lparr>correct_pairs = [], substitution_pairs = [], deleted = [], inserted = []\<rparr>"

text \<open>
  Modelled from the spec: candidate selection of the absent \<^verbatim>\<open>classify_events\<close> (section 4.5,
  steps 1 and 2 and the tie-break). \<open>better g a b\<close>: candidate \<open>b\<close> strictly beats \<open>a\<close> for
  the ground-truth event \<open>g\<close>, by higher IoU, then by earlier start. Among candidates equal
  in both, the one listed first is kept.
\<close>

definition better :: "event \<Rightarrow> nat \<times> event \<Rightarrow> nat \<times> event \<Rightarrow> bool" where
  "better g a b =
     (event_iou g (snd a) < event_iou g (snd b)
      \<or> (event_iou g (snd b) = event_iou g (snd a) \<and> start (snd b) < start (snd a)))"

text \<open>
  Modelled from the spec: the best unconsumed candidate for \<open>g\<close> in the absent
  \<^verbatim>\<open>classify_events\<close> (section 4.5, step 2), none when every predicted event is consumed.
\<close>

fun best_match :: "event \<Rightarrow> (nat \<times> event) list \<Rightarrow> (nat \<times> event) option" where
  "best_match g [] = None"
| "best_match g (p # ps) =
     (case best_match g ps of
        None \<Rightarrow> Some p
      | Some q \<Rightarrow> if better g p q then Some q else Some p)"

text \<open>
  Modelled from the spec: the greedy loop of the absent \<^verbatim>\<open>classify_events\<close> (section 4.5,
  steps 2 to 5). Ground-truth events are taken in list order; \<open>avail\<close> holds the predicted
  events not yet consumed.
\<close>

fun match_gts :: "real \<Rightarrow> (nat \<times> event) list \<Rightarrow> (nat \<times> event) list \<Rightarrow> outcome \<Rightarrow> outcome" where
  "match_gts th [] avail out = out\<lparr>inserted := map fst avail\<rparr>"
| "match_gts th (ig # gs) avail out =
     (case best_match (snd ig) avail of
        None \<Rightarrow> match_gts th gs avail (out\<lparr>deleted := deleted out @ [fst ig]\<rparr>)
      | Some jp \<Rightarrow>
          if th \<le> event_iou (snd ig) (snd jp) then
            (if label (snd jp) = label (snd ig) then
               match_gts th gs (remove1 jp avail)
                 (out\<lparr>correct_pairs := correct_pairs out @ [(fst ig, fst jp)]\<rparr>)
             else
               match_gts th gs (remove1 jp avail)
                 (out\<lparr>substitution_pairs := substitution_pairs out @ [(fst ig, fst jp)]\<rparr>))
          else match_gts th gs avail (out\<lparr>deleted := deleted out @ [fst ig]\<rparr>))"

text \<open>
  Modelled from the spec: the whole matching of the absent \<^verbatim>\<open>classify_events\<close>, each event
  paired with its position in its list.
\<close>

definition match_events :: "event list \<Rightarrow> event list \<Rightarrow> real \<Rightarrow> outcome" where
  "match_events predicted_events ground_truth_events IoU_th =
     match_gts IoU_th (enumerate 0 ground_truth_events) (enumerate 0 predicted_events) no_outcome"

text \<open>
  Modelled from the spec: \<^verbatim>\<open>classify_events\<close> of the absent module \<^verbatim>\<open>detection.py\<close>. The
  result is the tuple the orchestrator unpacks,
  \<^verbatim>\<open>insertions, corrects, substitutions, deletions\<close>, as the counts of section 4.6.
\<close>

definition classify_events :: "event list \<Rightarrow> event list \<Rightarrow> real \<Rightarrow> nat \<times> nat \<times> nat \<times> nat" where
  "classify_events predicted_events ground_truth_events IoU_th =
     (let out = match_events predicted_events ground_truth_events IoU_th
      in (length (inserted out), length (correct_pairs out),
          length (substitution_pairs out), length (deleted out)))"

section \<open>The orchestrator of evaluation.py\<close>

subsection \<open>Exceptions, collaborator calls and runs\<close>

text \<open>
  Exceptions are values. \<open>Raised\<close> stands for whatever a collaborator raises
  (classifier, filter, plotting, thresholding, matching, metrics).
\<close>

datatype error =
    ValueError string
  | TypeError string
  | KeyError string
  | IndexError string
  | Raised string

text \<open>
  Each call to an imported function is an observable step of a run; so is \<^verbatim>\<open>print\<close>.
  \<^verbatim>\<open>plot_signal\<close> is recorded with the title (or name) it is given.
\<close>

datatype call =
    Call_generate_probabilities
  | Call_prediction_statistics
  | Call_plot_prediction_probabilities
  | Call_interpolate_probabilities
  | Call_filter_butterworth
  | Call_plot_signal string
  | Call_apply_probability_threshold
  | Call_get_continuous_events
  | Call_apply_duration_threshold
  | Call_print
  | Call_classify_events
  | Call_detection_ratio
  | Call_reliability
  | Call_erer
  | Call_get_gt_events_from_dict
  | Call_pipeline_transform

text \<open>
  A run yields an exception or a value, together with the calls made, in order. After an
  exception nothing more is called.
\<close>

type_synonym 'a run = "(error + 'a) \<times> call list"

definition ret :: "'a \<Rightarrow> 'a run" where
  "ret x = (Inr x, [])"

definition raise_err :: "error \<Rightarrow> 'a run" where
  "raise_err e = (Inl e, [])"

definition lift :: "error + 'a \<Rightarrow> 'a run" where
  "lift r = (r, [])"

definition invoke :: "call \<Rightarrow> error + 'a \<Rightarrow> 'a run" where
  "invoke c r = (r, [c])"

definition bind_run :: "'a run \<Rightarrow> ('a \<Rightarrow> 'b run) \<Rightarrow> 'b run" where
  "bind_run m f =
     (case m of
        (Inl e, tr) \<Rightarrow> (Inl e, tr)
      | (Inr x, tr) \<Rightarrow> (case f x of (r, tr') \<Rightarrow> (r, tr @ tr')))"

fun map_run :: "('a \<Rightarrow> 'b run) \<Rightarrow> 'a list \<Rightarrow> 'b list run" where
  "map_run f [] = ret []"
| "map_run f (x # xs) =
     bind_run (f x) (\<lambda>y. bind_run (map_run f xs) (\<lambda>ys. ret (y # ys)))"

subsection \<open>Arrays\<close>

text \<open>
  A numpy array: its shape and its elements in row-major order. Every array numpy builds
  has as many elements as its shape says (\<open>wf_ndarray\<close>).
\<close>

datatype ndarray = NDArray (shape: "nat list") (elems: "real list")

definition wf_ndarray :: "ndarray \<Rightarrow> bool" where
  "wf_ndarray a = (length (elems a) = prod_list (shape a))"

definition ndim :: "ndarray \<Rightarrow> nat" where
  "ndim a = length (shape a)"

text \<open>All index tuples of a shape, in row-major order, and the position of one of them.\<close>

fun indices :: "nat list \<Rightarrow> nat list list" where
  "indices [] = [Nil]"
| "indices (d # ds) = concat (map (\<lambda>i. map ((#) i) (indices ds)) [0..<d])"

definition flat_index :: "nat list \<Rightarrow> nat list \<Rightarrow> nat" where
  "flat_index sh idx = foldl (\<lambda>acc (d, i). acc * d + i) 0 (zip sh idx)"

text \<open>The attribute \<^verbatim>\<open>.T\<close>: the axes reversed (the identity below two axes).\<close>

definition transpose_nd :: "ndarray \<Rightarrow> ndarray" where
  "transpose_nd a =
     NDArray (rev (shape a))
       (map (\<lambda>idx. elems a ! flat_index (shape a) (rev idx)) (indices (rev (shape a))))"

text \<open>
  Iterating over an array yields its sub-arrays along the first axis; an array without
  axes cannot be iterated.
\<close>

definition iterate :: "ndarray \<Rightarrow> error + ndarray list" where
  "iterate a =
     (case shape a of
        [] \<Rightarrow> Inl (TypeError ''iteration over a 0-d array'')
      | n # rest \<Rightarrow>
          Inr (map (\<lambda>i. NDArray rest
                     (take (prod_list rest) (drop (i * prod_list rest) (elems a))))
                   [0..<n]))"

text \<open>
  \<^verbatim>\<open>numpy.array\<close> on a list of arrays: the empty list gives the one-axis array of no
  elements; arrays of one shape are stacked along a new first axis; arrays of different
  shapes are refused.
\<close>

definition np_array :: "ndarray list \<Rightarrow> error + ndarray" where
  "np_array xs =
     (case xs of
        [] \<Rightarrow> Inr (NDArray [0] [])
      | x # _ \<Rightarrow>
          if list_all (\<lambda>y. shape y = shape x) xs
          then Inr (NDArray (length xs # shape x) (concat (map elems xs)))
          else Inl (ValueError ''setting an array element with a sequence''))"

subsection \<open>The smoothing stage\<close>

text \<open>
  Lines 145 to 150:
  \<^verbatim>\<open>array([filter_butterworth(array=cls_probas, ...) for cls_probas in interpolated_probas.T]).T\<close>.
  \<open>lowpass\<close> is the external filter with its sample rate, kind, cut-off and order fixed.
\<close>

definition smooth :: "(ndarray \<Rightarrow> error + ndarray) \<Rightarrow> ndarray \<Rightarrow> ndarray run" where
  "smooth lowpass interpolated_probas =
     bind_run (lift (iterate (transpose_nd interpolated_probas))) (\<lambda>channels.
     bind_run (map_run (\<lambda>cls_probas. invoke Call_filter_butterworth (lowpass cls_probas))
                 channels) (\<lambda>filtered.
     bind_run (lift (np_array filtered)) (\<lambda>stacked.
     ret (transpose_nd stacked))))"

subsection \<open>Values, arguments and collaborators\<close>

text \<open>
  What a result bundle can hold: an array, the statistics dictionary, the dictionary of
  figures, a classification count, a metric. \<open>'f\<close> is the type of figure objects.
\<close>

datatype 'f pyval =
    Array ndarray
  | Stats "(string \<times> ndarray) list"
  | Figures "(string \<times> 'f) list"
  | Count nat
  | Metric metric

type_synonym 'f results = "string \<rightharpoonup> 'f pyval"

text \<open>
  The parameters of \<^verbatim>\<open>robustness_analysis\<close> (lines 35 to 53); \<open>'m\<close> is the type of models.
  The defaults of the optional ones are \<^verbatim>\<open>repeats=5\<close>, \<^verbatim>\<open>metrics="all"\<close>,
  \<^verbatim>\<open>interp_choice=2\<close>, \<^verbatim>\<open>prob_th=0.7\<close>, \<^verbatim>\<open>dur_th=1.0\<close>, \<^verbatim>\<open>iou_th=0.5\<close>, \<^verbatim>\<open>figsize=(14, 6)\<close>,
  \<^verbatim>\<open>x_axis="time"\<close>, \<^verbatim>\<open>options_to_include=None\<close>.
\<close>

record 'm args =
  model :: 'm
  input_data :: ndarray
  class_names :: "string list"
  sr :: int
  ws :: real
  overlap_percentage :: real
  ground_truths :: "event list"
  cutoff :: real
  repeats :: int
  metrics :: string
  interp_choice :: "int option"
  prob_th :: real
  dur_th :: real
  iou_th :: real
  figsize :: "int \<times> int"
  x_axis :: "string option"
  options_to_include :: "string list option"

text \<open>
  A dataset as \<^verbatim>\<open>robustness_analysis_batch\<close> uses it: the raw instances \<^verbatim>\<open>X\<close> and their
  labels \<^verbatim>\<open>y\<close>, a label being a class index or a class name.
\<close>

datatype class_label = LabelInt int | LabelStr string

record dataset =
  dataset_X :: "ndarray list"
  dataset_y :: "class_label list"

text \<open>
  The imported functions, taken as parameters with the arguments of their call sites:
  each returns a value or raises. \<open>'d\<close> is the type of the annotation dictionary handed
  to \<^verbatim>\<open>get_gt_events_from_dict\<close>. \<open>ext_plot_pilot_signal\<close> is \<^verbatim>\<open>plot_signal\<close> as the batch
  variant calls it (\<^verbatim>\<open>name=\<close>, \<^verbatim>\<open>mode=\<close>, a single channel name, no events).
\<close>

record ('m, 'f, 'd) collaborators =
  ext_generate_probabilities :: "'m \<Rightarrow> ndarray \<Rightarrow> int \<Rightarrow> error + ndarray"
  ext_prediction_statistics :: "ndarray \<Rightarrow> string \<Rightarrow> error + (string \<times> ndarray) list"
  ext_plot_prediction_probabilities ::
    "ndarray \<Rightarrow> int \<Rightarrow> real \<Rightarrow> real \<Rightarrow> string list \<Rightarrow> int \<times> int \<Rightarrow> string option
       \<Rightarrow> event list \<Rightarrow> error + 'f"
  ext_interpolate_probabilities ::
    "ndarray \<Rightarrow> int \<Rightarrow> real \<Rightarrow> real \<Rightarrow> int option \<Rightarrow> error + ndarray"
  ext_filter_butterworth :: "ndarray \<Rightarrow> int \<Rightarrow> string \<Rightarrow> real \<Rightarrow> int \<Rightarrow> error + ndarray"
  ext_plot_signal ::
    "ndarray \<Rightarrow> int \<Rightarrow> string \<Rightarrow> string option \<Rightarrow> string list \<Rightarrow> int \<times> int
       \<Rightarrow> event list \<Rightarrow> string list \<Rightarrow> error + 'f"
  ext_apply_probability_threshold :: "ndarray \<Rightarrow> real \<Rightarrow> error + ndarray"
  ext_get_continuous_events :: "ndarray \<Rightarrow> error + event list"
  ext_apply_duration_threshold ::
    "ndarray \<Rightarrow> event list \<Rightarrow> int \<Rightarrow> real \<Rightarrow> error + ndarray \<times> event list"
  ext_classify_events :: "event list \<Rightarrow> event list \<Rightarrow> real \<Rightarrow> error + nat \<times> nat \<times> nat \<times> nat"
  ext_detection_ratio :: "nat \<Rightarrow> nat \<Rightarrow> nat \<Rightarrow> error + metric"
  ext_reliability :: "nat \<Rightarrow> nat \<Rightarrow> error + metric"
  ext_erer :: "nat \<Rightarrow> nat \<Rightarrow> nat \<Rightarrow> nat \<Rightarrow> error + metric"
  ext_get_gt_events_from_dict ::
    "'d \<Rightarrow> string list \<Rightarrow> int \<Rightarrow> error + (string \<times> event list) list"
  ext_plot_pilot_signal ::
    "ndarray \<Rightarrow> int \<Rightarrow> string \<Rightarrow> string \<Rightarrow> string \<Rightarrow> int \<times> int \<Rightarrow> error + 'f"
  ext_pipeline_transform :: "dataset \<Rightarrow> error + ndarray"

subsection \<open>robustness\_analysis\<close>

text \<open>The module constant \<^verbatim>\<open>_OPTIONS\<close> (lines 21 to 32).\<close>

definition OPTIONS :: "string list" where
  "OPTIONS =
     [''transformed_data'', ''prediction_probas'', ''trust_metrics'',
      ''non_overlapping_probas'', ''interpolated_probas'', ''smoothed_probas'',
      ''thresholded_probas'', ''predicted_events'', ''ICSD'', ''figures'']"

text \<open>
  Line 100, \<^verbatim>\<open>options_to_include or _OPTIONS\<close>: \<^verbatim>\<open>None\<close> and the empty list are both
  false, so both give the default list.
\<close>

definition options_or_default :: "string list option \<Rightarrow> string list" where
  "options_or_default o_t_i =
     (case o_t_i of None \<Rightarrow> OPTIONS | Some [] \<Rightarrow> OPTIONS | Some (k # ks) \<Rightarrow> k # ks)"

text \<open>Subscripting the statistics dictionary: a missing key raises \<^verbatim>\<open>KeyError\<close>.\<close>

definition subscript :: "(string \<times> 'v) list \<Rightarrow> string \<Rightarrow> 'v run" where
  "subscript d k = (case map_of d k of None \<Rightarrow> raise_err (KeyError k) | Some v \<Rightarrow> ret v)"

text \<open>\<^verbatim>\<open>if key in options_to_include: results[field] = value\<close>.\<close>

definition put_if :: "string list \<Rightarrow> string \<Rightarrow> string \<Rightarrow> 'v \<Rightarrow> (string \<rightharpoonup> 'v) \<Rightarrow> (string \<rightharpoonup> 'v)" where
  "put_if opts key field v results =
     (if key \<in> set opts then results(field \<mapsto> v) else results)"

text \<open>Lines 93 to 224, statement by statement.\<close>

definition robustness_analysis ::
  "('m, 'f, 'd) collaborators \<Rightarrow> 'm args \<Rightarrow> 'f results run" where
  "robustness_analysis env a =
  (if ndim (input_data a) < 2
   then raise_err (ValueError ''`input_data` must be at least 2D.'')
   else
    let opts = options_or_default (options_to_include a);
        results = put_if opts ''transformed_data'' ''transformed_data''
                    (Array (input_data a)) Map.empty
    in
    bind_run (invoke Call_generate_probabilities
      (ext_generate_probabilities env (model a) (input_data a) (repeats a)))
    (\<lambda>prediction_probas.
    let results = put_if opts ''prediction_probas'' ''prediction_probas''
                    (Array prediction_probas) results
    in
    bind_run (invoke Call_prediction_statistics
      (ext_prediction_statistics env prediction_probas (metrics a)))
    (\<lambda>pred_stats.
    let results = put_if opts ''pred_stats'' ''pred_stats'' (Stats pred_stats) results
    in
    bind_run (subscript pred_stats ''mean_pred'')
    (\<lambda>mean_probas.
    bind_run (invoke Call_plot_prediction_probabilities
      (ext_plot_prediction_probabilities env mean_probas (sr a) (ws a)
         (overlap_percentage a) (class_names a) (figsize a) (x_axis a) (ground_truths a)))
    (\<lambda>pred_probas_fig.
    bind_run (invoke Call_interpolate_probabilities
      (ext_interpolate_probabilities env mean_probas (sr a) (ws a)
         (overlap_percentage a) (interp_choice a)))
    (\<lambda>interpolated_probas.
    let results = put_if opts ''interpolated_probas'' ''interpolated_probas''
                    (Array interpolated_probas) results
    in
    bind_run (smooth (\<lambda>cls_probas.
        ext_filter_butterworth env cls_probas (sr a) ''lowpass'' (cutoff a) 3)
      interpolated_probas)
    (\<lambda>smoothed_probas.
    let results = put_if opts ''smoothed_probas'' ''smoothed_probas''
                    (Array smoothed_probas) results
    in
    bind_run (invoke (Call_plot_signal ''Interpolated Prediction Probabilities'')
      (ext_plot_signal env smoothed_probas (sr a) ''Interpolated Prediction Probabilities''
         (x_axis a) (class_names a) (figsize a) (ground_truths a) (class_names a)))
    (\<lambda>interp_smoothed_probas_fig.
    bind_run (invoke Call_apply_probability_threshold
      (ext_apply_probability_threshold env smoothed_probas (prob_th a)))
    (\<lambda>threshold_probas.
    bind_run (invoke Call_get_continuous_events
      (ext_get_continuous_events env threshold_probas))
    (\<lambda>potential_events.
    bind_run (invoke Call_apply_duration_threshold
      (ext_apply_duration_threshold env threshold_probas potential_events (sr a) (dur_th a)))
    (\<lambda>(threshold_probas, predicted_events).
    let results = put_if opts ''thresholded_probas'' ''thresholded_probas''
                    (Array threshold_probas) results
    in
    bind_run (invoke (Call_plot_signal ''Thresholded Interpolated Prediction Probabilities'')
      (ext_plot_signal env threshold_probas (sr a)
         ''Thresholded Interpolated Prediction Probabilities''
         (x_axis a) (class_names a) (figsize a) (ground_truths a) (class_names a)))
    (\<lambda>thresh_probas_fig.
    let results = put_if opts ''figures'' ''figures''
                    (Figures [(''pred_probas_fig'', pred_probas_fig),
                              (''interp_probas_fig'', interp_smoothed_probas_fig),
                              (''thresh_probas_fig'', thresh_probas_fig)]) results
    in
    bind_run (invoke Call_print (Inr ()))
    (\<lambda>_.
    bind_run (invoke Call_print (Inr ()))
    (\<lambda>_.
    bind_run (invoke Call_classify_events
      (ext_classify_events env predicted_events (ground_truths a) (iou_th a)))
    (\<lambda>(insertions, corrects, substitutions, deletions).
    let results = put_if opts ''ICSD'' ''Insertions'' (Count insertions) results;
        results = put_if opts ''ICSD'' ''corrects'' (Count corrects) results;
        results = put_if opts ''ICSD'' ''substitutions'' (Count substitutions) results;
        results = put_if opts ''ICSD'' ''deletions'' (Count deletions) results
    in
    if ''trust_metrics'' \<in> set opts then
      bind_run (invoke Call_detection_ratio
        (ext_detection_ratio env corrects deletions substitutions))
      (\<lambda>dr.
      bind_run (invoke Call_reliability (ext_reliability env corrects insertions))
      (\<lambda>rel.
      bind_run (invoke Call_erer (ext_erer env deletions insertions substitutions corrects))
      (\<lambda>er.
      ret (results(''DR'' \<mapsto> Metric dr, ''Reliability'' \<mapsto> Metric rel,
                   ''ERER'' \<mapsto> Metric er)))))
    else ret results)))))))))))))))"

subsection \<open>Calling robustness\_analysis by keyword\<close>

text \<open>
  Both batch variants call \<^verbatim>\<open>robustness_analysis\<close> with keyword arguments only. Python
  binds them by name: a keyword that is not a parameter, or a parameter without default
  that gets no argument, raises \<^verbatim>\<open>TypeError\<close> before the body runs.
\<close>

datatype 'm argval =
    AModel 'm
  | AArray ndarray
  | AStrings "string list"
  | AInt int
  | AReal real
  | AEvents "event list"
  | AString string
  | AOptInt "int option"
  | AOptString "string option"
  | AOptStrings "string list option"
  | AIntPair "int \<times> int"

definition parameter_names :: "string list" where
  "parameter_names =
     [''model'', ''input_data'', ''class_names'', ''sr'', ''ws'', ''overlap_percentage'',
      ''ground_truths'', ''cutoff'', ''repeats'', ''metrics'', ''interp_choice'',
      ''prob_th'', ''dur_th'', ''iou_th'', ''figsize'', ''x_axis'', ''options_to_include'']"

definition required_parameters :: "string list" where
  "required_parameters =
     [''model'', ''input_data'', ''class_names'', ''sr'', ''ws'', ''overlap_percentage'',
      ''ground_truths'', ''cutoff'']"

definition the_model :: "'m argval \<Rightarrow> 'm option" where
  "the_model v = (case v of AModel m \<Rightarrow> Some m | _ \<Rightarrow> None)"

definition the_array :: "'m argval \<Rightarrow> ndarray option" where
  "the_array v = (case v of AArray x \<Rightarrow> Some x | _ \<Rightarrow> None)"

definition the_strings :: "'m argval \<Rightarrow> string list option" where
  "the_strings v = (case v of AStrings x \<Rightarrow> Some x | _ \<Rightarrow> None)"

definition the_int :: "'m argval \<Rightarrow> int option" where
  "the_int v = (case v of AInt x \<Rightarrow> Some x | _ \<Rightarrow> None)"

definition the_real :: "'m argval \<Rightarrow> real option" where
  "the_real v = (case v of AReal x \<Rightarrow> Some x | AInt x \<Rightarrow> Some (real_of_int x) | _ \<Rightarrow> None)"

definition the_events :: "'m argval \<Rightarrow> event list option" where
  "the_events v = (case v of AEvents x \<Rightarrow> Some x | _ \<Rightarrow> None)"

definition the_string :: "'m argval \<Rightarrow> string option" where
  "the_string v = (case v of AString x \<Rightarrow> Some x | _ \<Rightarrow> None)"

definition the_opt_int :: "'m argval \<Rightarrow> int option option" where
  "the_opt_int v = (case v of AOptInt x \<Rightarrow> Some x | AInt x \<Rightarrow> Some (Some x) | _ \<Rightarrow> None)"

definition the_opt_string :: "'m argval \<Rightarrow> string option option" where
  "the_opt_string v =
     (case v of AOptString x \<Rightarrow> Some x | AString x \<Rightarrow> Some (Some x) | _ \<Rightarrow> None)"

definition the_opt_strings :: "'m argval \<Rightarrow> string list option option" where
  "the_opt_strings v =
     (case v of AOptStrings x \<Rightarrow> Some x | AStrings x \<Rightarrow> Some (Some x) | _ \<Rightarrow> None)"

definition the_int_pair :: "'m argval \<Rightarrow> (int \<times> int) option" where
  "the_int_pair v = (case v of AIntPair x \<Rightarrow> Some x | _ \<Rightarrow> None)"

definition required :: "(string \<times> 'a) list \<Rightarrow> string \<Rightarrow> ('a \<Rightarrow> 'b option) \<Rightarrow> 'b option" where
  "required kws name proj = Option.bind (map_of kws name) proj"

definition optional :: "(string \<times> 'a) list \<Rightarrow> string \<Rightarrow> ('a \<Rightarrow> 'b option) \<Rightarrow> 'b \<Rightarrow> 'b option" where
  "optional kws name proj dflt =
     (case map_of kws name of None \<Rightarrow> Some dflt | Some v \<Rightarrow> proj v)"

text \<open>
  The parameter record for a keyword list whose names have been accepted; a missing
  optional parameter takes the default of the signature. \<open>None\<close> when a value is not of
  the kind the model gives the parameter.
\<close>

definition bind_args :: "(string \<times> 'm argval) list \<Rightarrow> 'm args option" where
  "bind_args kws =
     Option.bind (required kws ''model'' the_model) (\<lambda>a1.
     Option.bind (required kws ''input_data'' the_array) (\<lambda>a2.
     Option.bind (required kws ''class_names'' the_strings) (\<lambda>a3.
     Option.bind (required kws ''sr'' the_int) (\<lambda>a4.
     Option.bind (required kws ''ws'' the_real) (\<lambda>a5.
     Option.bind (required kws ''overlap_percentage'' the_real) (\<lambda>a6.
     Option.bind (required kws ''ground_truths'' the_events) (\<lambda>a7.
     Option.bind (required kws ''cutoff'' the_real) (\<lambda>a8.
     Option.bind (optional kws ''repeats'' the_int 5) (\<lambda>a9.
     Option.bind (optional kws ''metrics'' the_string ''all'') (\<lambda>a10.
     Option.bind (optional kws ''interp_choice'' the_opt_int (Some 2)) (\<lambda>a11.
     Option.bind (optional kws ''prob_th'' the_real (7 / 10)) (\<lambda>a12.
     Option.bind (optional kws ''dur_th'' the_real 1) (\<lambda>a13.
     Option.bind (optional kws ''iou_th'' the_real (1 / 2)) (\<lambda>a14.
     Option.bind (optional kws ''figsize'' the_int_pair (14, 6)) (\<lambda>a15.
     Option.bind (optional kws ''x_axis'' the_opt_string (Some ''time'')) (\<lambda>a16.
     Option.bind (optional kws ''options_to_include'' the_opt_strings None) (\<lambda>a17.
     Some \<lparr>model = a1, input_data = a2, class_names = a3, sr = a4, ws = a5,
           overlap_percentage = a6, ground_truths = a7, cutoff = a8, repeats = a9,
           metrics = a10, interp_choice = a11, prob_th = a12, dur_th = a13,
           iou_th = a14, figsize = a15, x_axis = a16,
           options_to_include = a17\<rparr>)))))))))))))))))"

definition robustness_analysis_call ::
  "('m, 'f, 'd) collaborators \<Rightarrow> (string \<times> 'm argval) list \<Rightarrow> 'f results run" where
  "robustness_analysis_call env kws =
     (case find (\<lambda>k. k \<notin> set parameter_names) (map fst kws) of
        Some k \<Rightarrow>
          raise_err (TypeError (''robustness_analysis() got an unexpected keyword argument '' @ k))
      | None \<Rightarrow>
          (case find (\<lambda>p. p \<notin> set (map fst kws)) required_parameters of
             Some p \<Rightarrow>
               raise_err (TypeError (''robustness_analysis() missing required argument '' @ p))
           | None \<Rightarrow>
               (case bind_args kws of
                  None \<Rightarrow> raise_err (TypeError ''argument of an unexpected type'')
                | Some a \<Rightarrow> robustness_analysis env a)))"

subsection \<open>robustness\_analysis\_many and robustness\_analysis\_batch\<close>

text \<open>
  The parameters the two batch variants share (lines 227 to 243 and 276 to 293), under
  the names of the source with the prefix \<open>m_\<close>.
\<close>

record ('m, 'd) many_args =
  m_model :: 'm
  m_events :: 'd
  m_class_names :: "string list"
  m_sample_rate :: int
  m_ws :: real
  m_perc_overlap :: real
  m_cutoff :: real
  m_repeats :: int
  m_metrics :: string
  m_prob_th :: real
  m_duration_th :: real
  m_iou_th :: real
  m_options_to_include :: "string list option"
  m_figsize :: "int \<times> int"

text \<open>The keyword arguments both variants pass (lines 253 to 269 and 329 to 345).\<close>

definition instance_keywords ::
  "('m, 'd) many_args \<Rightarrow> ndarray \<Rightarrow> event list \<Rightarrow> string list option
     \<Rightarrow> (string \<times> 'm argval) list" where
  "instance_keywords b x gt_events o_t_i =
     [(''model'', AModel (m_model b)),
      (''input_data'', AArray x),
      (''class_names'', AStrings (m_class_names b)),
      (''cutoff'', AReal (m_cutoff b)),
      (''sample_rate'', AInt (m_sample_rate b)),
      (''ws'', AReal (m_ws b)),
      (''perc_overlap'', AReal (m_perc_overlap b)),
      (''ground_truths'', AEvents gt_events),
      (''repeats'', AInt (m_repeats b)),
      (''metrics'', AString (m_metrics b)),
      (''prob_th'', AReal (m_prob_th b)),
      (''duration_th'', AReal (m_duration_th b)),
      (''iou_th'', AReal (m_iou_th b)),
      (''options_to_include'', AOptStrings o_t_i),
      (''figsize'', AIntPair (m_figsize b))]"

text \<open>\<^verbatim>\<open>xs[i]\<close> for a position from \<^verbatim>\<open>enumerate\<close>, and for an integer that may be negative.\<close>

definition item :: "'a list \<Rightarrow> nat \<Rightarrow> 'a run" where
  "item xs i =
     (if i < length xs then ret (xs ! i)
      else raise_err (IndexError ''list index out of range''))"

definition py_item :: "'a list \<Rightarrow> int \<Rightarrow> 'a run" where
  "py_item xs i =
     (let n = int (length xs); j = (if i < 0 then n + i else i)
      in if 0 \<le> j \<and> j < n then ret (xs ! nat j)
         else raise_err (IndexError ''list index out of range''))"

text \<open>The loop of lines 249 to 271, from position \<open>i\<close> on.\<close>

fun many_loop ::
  "('m, 'f, 'd) collaborators \<Rightarrow> ('m, 'd) many_args \<Rightarrow> ndarray list \<Rightarrow> nat
     \<Rightarrow> (string \<times> event list) list \<Rightarrow> (string \<rightharpoonup> 'f results) \<Rightarrow> (string \<rightharpoonup> 'f results) run" where
  "many_loop env b X i [] results = ret results"
| "many_loop env b X i ((filename, gt_events) # rest) results =
     bind_run (item X i) (\<lambda>ts_input_data.
     bind_run (robustness_analysis_call env
                 (instance_keywords b ts_input_data gt_events (m_options_to_include b)))
       (\<lambda>ts_instance_results.
     many_loop env b X (i + 1) rest (results(filename \<mapsto> ts_instance_results))))"

definition robustness_analysis_many ::
  "('m, 'f, 'd) collaborators \<Rightarrow> ('m, 'd) many_args \<Rightarrow> ndarray list
     \<Rightarrow> (string \<rightharpoonup> 'f results) run" where
  "robustness_analysis_many env b X =
     bind_run (invoke Call_get_gt_events_from_dict
       (ext_get_gt_events_from_dict env (m_events b) (m_class_names b) (m_sample_rate b)))
     (\<lambda>ground_truths_dict. many_loop env b X 0 ground_truths_dict Map.empty)"

text \<open>\<^verbatim>\<open>dataset[i : i + 1]\<close>: the dataset of the one instance at \<open>i\<close>, or of none.\<close>

definition slice1 :: "dataset \<Rightarrow> nat \<Rightarrow> dataset" where
  "slice1 ds i =
     \<lparr>dataset_X = take 1 (drop i (dataset_X ds)), dataset_y = take 1 (drop i (dataset_y ds))\<rparr>"

definition flatten :: "ndarray \<Rightarrow> ndarray" where
  "flatten x = NDArray [prod_list (shape x)] (elems x)"

text \<open>
  Line 323,
  \<^verbatim>\<open>results.setdefault(filename, {}).setdefault("figures", {})["pilot_signal"] = pilot_signal\<close>.
\<close>

definition set_pilot_signal ::
  "(string \<rightharpoonup> 'f results) \<Rightarrow> string \<Rightarrow> 'f \<Rightarrow> (string \<rightharpoonup> 'f results) run" where
  "set_pilot_signal results filename pilot_signal =
     (let inst = (case results filename of None \<Rightarrow> Map.empty | Some r \<Rightarrow> r)
      in case inst ''figures'' of
           None \<Rightarrow>
             ret (results(filename \<mapsto> inst(''figures'' \<mapsto> Figures [(''pilot_signal'', pilot_signal)])))
         | Some (Figures figs) \<Rightarrow>
             ret (results(filename \<mapsto>
                    inst(''figures'' \<mapsto> Figures (AList.update ''pilot_signal'' pilot_signal figs))))
         | Some _ \<Rightarrow> raise_err (TypeError ''object does not support item assignment''))"

text \<open>The loop of lines 300 to 347, from position \<open>i\<close> on; \<open>opts\<close> is the list of line 295.\<close>

fun batch_loop ::
  "('m, 'f, 'd) collaborators \<Rightarrow> ('m, 'd) many_args \<Rightarrow> dataset \<Rightarrow> string list \<Rightarrow> nat
     \<Rightarrow> (string \<times> event list) list \<Rightarrow> (string \<rightharpoonup> 'f results) \<Rightarrow> (string \<rightharpoonup> 'f results) run" where
  "batch_loop env b ds opts i [] results = ret results"
| "batch_loop env b ds opts i ((filename, gt_events) # rest) results =
     (let dataset_instance = slice1 ds i in
      bind_run (item (dataset_y dataset_instance) 0) (\<lambda>label0.
      bind_run (case label0 of
                  LabelInt n \<Rightarrow> py_item (m_class_names b) n
                | LabelStr s \<Rightarrow> ret s) (\<lambda>label1.
      bind_run (if ''figures'' \<in> set opts then
                  bind_run (item (dataset_X dataset_instance) 0) (\<lambda>x0.
                  bind_run (invoke (Call_plot_signal ''Pilot Signal'')
                    (ext_plot_pilot_signal env (flatten x0) (m_sample_rate b)
                       ''Pilot Signal'' ''samples'' label1 (m_figsize b)))
                  (\<lambda>pilot_signal. set_pilot_signal results filename pilot_signal))
                else ret results) (\<lambda>results1.
      bind_run (invoke Call_pipeline_transform
        (ext_pipeline_transform env dataset_instance)) (\<lambda>input_data1.
      bind_run (robustness_analysis_call env
                  (instance_keywords b input_data1 gt_events (Some opts)))
        (\<lambda>instance_results.
      batch_loop env b ds opts (i + 1) rest (results1(filename \<mapsto> instance_results))))))))"

definition robustness_analysis_batch ::
  "('m, 'f, 'd) collaborators \<Rightarrow> ('m, 'd) many_args \<Rightarrow> dataset
     \<Rightarrow> (string \<rightharpoonup> 'f results) run" where
  "robustness_analysis_batch env b ds =
     (let opts = options_or_default (m_options_to_include b) in
      bind_run (invoke Call_get_gt_events_from_dict
        (ext_get_gt_events_from_dict env (m_events b) (m_class_names b) (m_sample_rate b)))
      (\<lambda>ground_truths_dict. batch_loop env b ds opts 0 ground_truths_dict Map.empty))"

subsection \<open>Stand-in collaborators and a sample instance\<close>

text \<open>
  To run the orchestrator on concrete data: a classifier that always answers with the
  same probabilities for two windows of one class, statistics holding their mean, an
  interpolation and a filter that leave the values as they are, plots that return their
  title as the figure, one detected event, and the matcher and metrics modelled above.
  The annotation dictionary already is the dictionary of ground-truth events.
\<close>

definition sample_event :: event where
  "sample_event = \<lparr>start = 1, stop = 3, label = ''A''\<rparr>"

definition sample_truth :: event where
  "sample_truth = \<lparr>start = 6 / 5, stop = 14 / 5, label = ''A''\<rparr>"

definition stand_ins :: "(unit, string, (string \<times> event list) list) collaborators" where
  "stand_ins =
     \<lparr>ext_generate_probabilities = (\<lambda>m x r. Inr (NDArray [1, 2, 1] [9 / 10, 4 / 5])),
      ext_prediction_statistics = (\<lambda>p ms. Inr [(''mean_pred'', NDArray [2, 1] (elems p))]),
      ext_plot_prediction_probabilities = (\<lambda>p s w ov cs fs md evs. Inr ''pred_probas''),
      ext_interpolate_probabilities = (\<lambda>p s w ov ic. Inr p),
      ext_filter_butterworth = (\<lambda>x fs kind cf ord. Inr x),
      ext_plot_signal = (\<lambda>x s title md chs fs evs cs. Inr title),
      ext_apply_probability_threshold = (\<lambda>x th. Inr x),
      ext_get_continuous_events = (\<lambda>x. Inr [sample_event]),
      ext_apply_duration_threshold = (\<lambda>x evs s d. Inr (x, evs)),
      ext_classify_events = (\<lambda>ps gs th. Inr (classify_events ps gs th)),
      ext_detection_ratio = (\<lambda>c d s. Inr (detection_ratio c d s)),
      ext_reliability = (\<lambda>c i. Inr (reliability c i)),
      ext_erer = (\<lambda>d i s c. Inr (erer d i s c)),
      ext_get_gt_events_from_dict = (\<lambda>d cs s. Inr d),
      ext_plot_pilot_signal = (\<lambda>x s name md ch fs. Inr name),
      ext_pipeline_transform = (\<lambda>ds. Inr (NDArray [2, 2] [0, 0, 0, 0]))\<rparr>"

definition sample_args :: "string list option \<Rightarrow> unit args" where
  "sample_args o_t_i =
     \<lparr>model = (), input_data = NDArray [2, 2] [0, 0, 0, 0], class_names = [''A''],
      sr = 100, ws = 1, overlap_percentage = 1 / 2, ground_truths = [sample_truth],
      cutoff = 5, repeats = 5, metrics = ''all'', interp_choice = Some 2,
      prob_th = 7 / 10, dur_th = 1, iou_th = 1 / 2, figsize = (14, 6),
      x_axis = Some ''time'', options_to_include = o_t_i\<rparr>"

definition sample_many_args ::
  "string list option \<Rightarrow> (unit, (string \<times> event list) list) many_args" where
  "sample_many_args o_t_i =
     \<lparr>m_model = (), m_events = [(''rec1.wav'', [sample_truth])], m_class_names = [''A''],
      m_sample_rate = 100, m_ws = 1, m_perc_overlap = 1 / 2, m_cutoff = 5,
      m_repeats = 5, m_metrics = ''all'', m_prob_th = 7 / 10, m_duration_th = 1,
      m_iou_th = 1 / 2, m_options_to_include = o_t_i, m_figsize = (14, 6)\<rparr>"

definition sample_dataset :: dataset where
  "sample_dataset =
     \<lparr>dataset_X = [NDArray [4, 1] [0, 0, 0, 0]], dataset_y = [LabelInt 0]\<rparr>"

subsection \<open>Notions used to state the properties\<close>

text \<open>The calls that draw a figure.\<close>

definition is_plot :: "call \<Rightarrow> bool" where
  "is_plot c =
     (case c of
        Call_plot_prediction_probabilities \<Rightarrow> True
      | Call_plot_signal title \<Rightarrow> True
      | _ \<Rightarrow> False)"

text \<open>The calls that compute a trust metric.\<close>

definition is_metric_call :: "call \<Rightarrow> bool" where
  "is_metric_call c =
     (case c of
        Call_detection_ratio \<Rightarrow> True
      | Call_reliability \<Rightarrow> True
      | Call_erer \<Rightarrow> True
      | _ \<Rightarrow> False)"

text \<open>
  The fields of the result bundle that a key of the allow-list selects: \<^verbatim>\<open>"ICSD"\<close> the four
  classification counts, \<^verbatim>\<open>"trust_metrics"\<close> the three metrics, seven keys the field of
  their own name, any other key nothing.
\<close>

definition fields_for :: "string \<Rightarrow> string set" where
  "fields_for key =
     (if key = ''ICSD'' then {''Insertions'', ''corrects'', ''substitutions'', ''deletions''}
      else if key = ''trust_metrics'' then {''DR'', ''Reliability'', ''ERER''}
      else if key \<in> {''transformed_data'', ''prediction_probas'', ''pred_stats'',
                     ''interpolated_probas'', ''smoothed_probas'', ''thresholded_probas'',
                     ''figures''} then {key}
      else {})"

text \<open>
  \<open>on_success m Q\<close>: if the run \<open>m\<close> returns a value, \<open>Q\<close> holds of that value and of the
  calls made. \<open>same_plots m m'\<close>: two runs draw the same figures in the same order.
\<close>

definition on_success :: "'a run \<Rightarrow> ('a \<Rightarrow> call list \<Rightarrow> bool) \<Rightarrow> bool" where
  "on_success m Q = (case fst m of Inl e \<Rightarrow> True | Inr x \<Rightarrow> Q x (snd m))"

definition same_plots :: "'a run \<Rightarrow> 'b run \<Rightarrow> bool" where
  "same_plots m m' = (filter is_plot (snd m) = filter is_plot (snd m'))"

section \<open>Properties of the IoU\<close>

lemma overlap_nonneg: "0 \<le> overlap s1 e1 s2 e2"
  by (simp add: overlap_def)

lemma overlap_le_union:
  assumes "s1 < e1" "s2 < e2"
  shows "overlap s1 e1 s2 e2 \<le> union_len s1 e1 s2 e2"
  using assms by (simp add: union_len_def overlap_def max_def min_def)

lemma union_len_pos:
  assumes "s1 < e1" "s2 < e2"
  shows "0 < union_len s1 e1 s2 e2"
  using assms by (simp add: union_len_def overlap_def max_def min_def)

lemma overlap_eq_union_iff:
  assumes "s1 < e1" "s2 < e2"
  shows "overlap s1 e1 s2 e2 = union_len s1 e1 s2 e2 \<longleftrightarrow> s1 = s2 \<and> e1 = e2"
  using assms by (auto simp add: union_len_def overlap_def max_def min_def)

lemma overlap_zero_iff:
  "overlap s1 e1 s2 e2 = 0 \<longleftrightarrow> min e1 e2 \<le> max s1 s2"
  by (auto simp add: overlap_def max_def min_def)

text \<open>
  C2. For valid half-open intervals \<open>[s1,e1)\<close> and \<open>[s2,e2)\<close> the IoU lies in \<open>[0,1]\<close>,
  it is 1 exactly when the two intervals are identical, and it is 0 exactly when they do
  not overlap (the later start is not before the earlier end).
\<close>

theorem iou_range_and_extremes:
  assumes "s1 < e1" "s2 < e2"
  shows "0 \<le> iou s1 e1 s2 e2 \<and> iou s1 e1 s2 e2 \<le> 1
       \<and> (iou s1 e1 s2 e2 = 1 \<longleftrightarrow> s1 = s2 \<and> e1 = e2)
       \<and> (iou s1 e1 s2 e2 = 0 \<longleftrightarrow> min e1 e2 \<le> max s1 s2)
       \<and> iou s1 e1 s2 e2 = max 0 (min e1 e2 - max s1 s2)
           / ((e1 - s1) + (e2 - s2) - max 0 (min e1 e2 - max s1 s2))"
proof -
  have u: "0 < union_len s1 e1 s2 e2"
    using assms by (rule union_len_pos)
  have q: "iou s1 e1 s2 e2 = overlap s1 e1 s2 e2 / union_len s1 e1 s2 e2"
    using u by (simp add: iou_def)
  have lo: "0 \<le> iou s1 e1 s2 e2"
    using u overlap_nonneg [of s1 e1 s2 e2] by (simp add: q)
  have hi: "iou s1 e1 s2 e2 \<le> 1"
    using u overlap_le_union [OF assms] by (simp add: q)
  have one: "iou s1 e1 s2 e2 = 1 \<longleftrightarrow> s1 = s2 \<and> e1 = e2"
    using u overlap_eq_union_iff [OF assms] by (auto simp add: q)
  have zero: "iou s1 e1 s2 e2 = 0 \<longleftrightarrow> min e1 e2 \<le> max s1 s2"
    using u overlap_zero_iff [of s1 e1 s2 e2] by (simp add: q)
  have form: "iou s1 e1 s2 e2 = max 0 (min e1 e2 - max s1 s2)
           / ((e1 - s1) + (e2 - s2) - max 0 (min e1 e2 - max s1 s2))"
    by (simp add: q overlap_def union_len_def)
  from lo hi one zero form show ?thesis by blast
qed

theorem iou_range_and_extremes_witness:
  "(1::real) < 3 \<and> (6/5::real) < 14/5
   \<and> 0 \<le> iou 1 3 (6/5) (14/5) \<and> iou 1 3 (6/5) (14/5) \<le> 1
   \<and> iou 1 3 (6/5) (14/5) = 4/5
   \<and> iou 1 3 1 3 = 1 \<and> iou 1 3 3 4 = 0"
proof -
  have h1: "(1::real) < 3" by simp
  have h2: "(6/5::real) < 14/5" by simp
  have h3: "(3::real) < 4" by simp
  have a: "0 \<le> iou 1 3 (6/5) (14/5) \<and> iou 1 3 (6/5) (14/5) \<le> 1"
    using iou_range_and_extremes [OF h1 h2] by blast
  have b: "iou 1 3 1 3 = 1"
    using iou_range_and_extremes [OF h1 h1] by blast
  have c: "iou 1 3 3 4 = 0"
    using iou_range_and_extremes [OF h1 h3] by simp
  have d: "iou 1 3 (6/5) (14/5) = 4/5"
    by (simp add: iou_def overlap_def union_len_def)
  from h1 h2 a b c d show ?thesis by blast
qed

section \<open>Properties of the trust metrics\<close>

text \<open>
  C3. For counts with non-zero denominators the three metrics are the quotients
  \<open>C/(C+D+S)\<close>, \<open>C/(C+I)\<close> and \<open>(S+D+I)/(C+S+D)\<close>; for \<open>C=8, S=1, D=1, I=2\<close> they are
  0.8, 0.8 and 0.4.
\<close>

theorem metrics_formulas:
  "(c + d + s \<noteq> 0 \<longrightarrow> detection_ratio c d s = Ratio (real c / real (c + d + s)))
   \<and> (c + i \<noteq> 0 \<longrightarrow> reliability c i = Ratio (real c / real (c + i)))
   \<and> (c + s + d \<noteq> 0 \<longrightarrow> erer d i s c = Ratio (real (s + d + i) / real (c + s + d)))
   \<and> detection_ratio 8 1 1 = Ratio (8 / 10)
   \<and> reliability 8 2 = Ratio (8 / 10)
   \<and> erer 1 2 1 8 = Ratio (4 / 10)"
  by (simp add: detection_ratio_def reliability_def erer_def)

theorem metrics_formulas_witness:
  "(8::nat) + 1 + 1 \<noteq> 0 \<and> (8::nat) + 2 \<noteq> 0
   \<and> detection_ratio 8 1 1 = Ratio (4 / 5)
   \<and> reliability 8 2 = Ratio (4 / 5)
   \<and> erer 1 2 1 8 = Ratio (2 / 5)"
  using metrics_formulas [of 8 1 1 2] by simp

text \<open>
  C4. When the denominator of a metric is 0 the metric is the not-applicable value: the
  function returns it as an ordinary result.
\<close>

theorem metrics_zero_denominator:
  "(c + d + s = 0 \<longrightarrow> detection_ratio c d s = NotApplicable)
   \<and> (c + i = 0 \<longrightarrow> reliability c i = NotApplicable)
   \<and> (c + s + d = 0 \<longrightarrow> erer d i s c = NotApplicable)"
  by (simp add: detection_ratio_def reliability_def erer_def)

theorem metrics_zero_denominator_witness:
  "(0::nat) + 0 + 0 = 0 \<and> detection_ratio 0 0 0 = NotApplicable
   \<and> reliability 0 0 = NotApplicable
   \<and> erer 0 3 0 0 = NotApplicable"
proof -
  have a: "detection_ratio 0 0 0 = NotApplicable \<and> erer 0 3 0 0 = NotApplicable"
    using metrics_zero_denominator [of 0 0 0 3] by simp
  have b: "reliability 0 0 = NotApplicable"
    using metrics_zero_denominator [of 0 0 0 0] by simp
  from a b show ?thesis by simp
qed

section \<open>The matcher partitions both event lists\<close>

lemma best_match_mem: "best_match g avail = Some jp \<Longrightarrow> jp \<in> set avail"
  by (induction avail arbitrary: jp) (auto split: option.splits if_splits)

lemma best_match_None: "best_match g avail = None \<longleftrightarrow> avail = []"
  by (cases avail) (auto split: option.splits)

lemma mset_map_fst_remove1:
  "jp \<in> set avail \<Longrightarrow> add_mset (fst jp) (mset (map fst (remove1 jp avail))) = mset (map fst avail)"
  by (induction avail) auto

lemma match_gts_ground_truth:
  "mset (map fst (correct_pairs (match_gts th gs avail out))
         @ map fst (substitution_pairs (match_gts th gs avail out))
         @ deleted (match_gts th gs avail out))
   = mset (map fst (correct_pairs out) @ map fst (substitution_pairs out) @ deleted out)
     + mset (map fst gs)"
  by (induction th gs avail out rule: match_gts.induct)
     (auto split: option.splits)

lemma match_gts_predicted:
  "mset (map snd (correct_pairs (match_gts th gs avail out))
         @ map snd (substitution_pairs (match_gts th gs avail out))
         @ inserted (match_gts th gs avail out))
   = mset (map snd (correct_pairs out) @ map snd (substitution_pairs out))
     + mset (map fst avail)"
proof (induction th gs avail out rule: match_gts.induct)
  case (1 th avail out)
  show ?case by simp
next
  case (2 th ig gs avail out)
  show ?case
  proof (cases "best_match (snd ig) avail")
    case None
    with 2 show ?thesis by simp
  next
    case (Some jp)
    then have mem: "jp \<in> set avail" by (rule best_match_mem)
    show ?thesis
      using 2 Some mset_map_fst_remove1 [OF mem, symmetric] by auto
  qed
qed

lemma map_fst_enumerate: "map fst (enumerate n xs) = [n..<n + length xs]"
  by (simp add: enumerate_eq_zip)

lemma distinct_of_mset_upt:
  assumes "mset (xs @ ys) = mset [0..<n]"
  shows "distinct xs"
proof -
  have "distinct (xs @ ys)"
    using assms by (metis distinct_upt mset_eq_imp_distinct_iff)
  then show ?thesis by simp
qed

text \<open>
  C1. For all lists of predicted and ground-truth events, every ground-truth position
  occurs exactly once among correct, substitution and deletion, every predicted position
  exactly once among correct, substitution and insertion, the correct matches pair
  distinct ground-truth positions with distinct predicted positions, and the count of
  correct matches enters both tallies: the counts returned by \<open>classify_events\<close> add up to
  the two list lengths.
\<close>

theorem classify_events_partition:
  "mset (map fst (correct_pairs (match_events ps gs th))
         @ map fst (substitution_pairs (match_events ps gs th))
         @ deleted (match_events ps gs th)) = mset [0..<length gs]
   \<and> mset (map snd (correct_pairs (match_events ps gs th))
         @ map snd (substitution_pairs (match_events ps gs th))
         @ inserted (match_events ps gs th)) = mset [0..<length ps]
   \<and> distinct (map fst (correct_pairs (match_events ps gs th)))
   \<and> distinct (map snd (correct_pairs (match_events ps gs th)))
   \<and> classify_events ps gs th
       = (length (inserted (match_events ps gs th)),
          length (correct_pairs (match_events ps gs th)),
          length (substitution_pairs (match_events ps gs th)),
          length (deleted (match_events ps gs th)))
   \<and> length (correct_pairs (match_events ps gs th))
       + length (substitution_pairs (match_events ps gs th))
       + length (deleted (match_events ps gs th)) = length gs
   \<and> length (correct_pairs (match_events ps gs th))
       + length (substitution_pairs (match_events ps gs th))
       + length (inserted (match_events ps gs th)) = length ps"
proof -
  let ?out = "match_events ps gs th"
  have g: "mset (map fst (correct_pairs ?out) @ map fst (substitution_pairs ?out)
                 @ deleted ?out) = mset [0..<length gs]"
    unfolding match_events_def
    by (simp only: match_gts_ground_truth map_fst_enumerate) (simp add: no_outcome_def)
  have p: "mset (map snd (correct_pairs ?out) @ map snd (substitution_pairs ?out)
                 @ inserted ?out) = mset [0..<length ps]"
    unfolding match_events_def
    by (simp only: match_gts_predicted map_fst_enumerate) (simp add: no_outcome_def)
  have d1: "distinct (map fst (correct_pairs ?out))"
    using g by (rule distinct_of_mset_upt)
  have d2: "distinct (map snd (correct_pairs ?out))"
    using p by (rule distinct_of_mset_upt)
  have c: "classify_events ps gs th
       = (length (inserted ?out), length (correct_pairs ?out),
          length (substitution_pairs ?out), length (deleted ?out))"
    by (simp add: classify_events_def Let_def)
  have "size (mset (map fst (correct_pairs ?out) @ map fst (substitution_pairs ?out)
                 @ deleted ?out)) = size (mset [0..<length gs])"
    by (simp only: g)
  then have lg: "length (correct_pairs ?out) + length (substitution_pairs ?out)
                 + length (deleted ?out) = length gs"
    by simp
  have "size (mset (map snd (correct_pairs ?out) @ map snd (substitution_pairs ?out)
                 @ inserted ?out)) = size (mset [0..<length ps])"
    by (simp only: p)
  then have lp: "length (correct_pairs ?out) + length (substitution_pairs ?out)
                 + length (inserted ?out) = length ps"
    by simp
  from g p d1 d2 c lg lp show ?thesis by blast
qed

theorem classify_events_partition_witness:
  "match_events [sample_event] [sample_truth] (1 / 2)
     = \<lparr>correct_pairs = [(0, 0)], substitution_pairs = [], deleted = [], inserted = []\<rparr>
   \<and> classify_events [sample_event] [sample_truth] (1 / 2) = (0, 1, 0, 0)
   \<and> match_events [sample_event] [sample_truth\<lparr>label := ''B''\<rparr>] (1 / 2)
     = \<lparr>correct_pairs = [], substitution_pairs = [(0, 0)], deleted = [], inserted = []\<rparr>"
proof -
  have e: "match_events [sample_event] [sample_truth] (1 / 2)
     = \<lparr>correct_pairs = [(0, 0)], substitution_pairs = [], deleted = [], inserted = []\<rparr>"
    by code_simp
  have s: "match_events [sample_event] [sample_truth\<lparr>label := ''B''\<rparr>] (1 / 2)
     = \<lparr>correct_pairs = [], substitution_pairs = [(0, 0)], deleted = [], inserted = []\<rparr>"
    by code_simp
  have c: "classify_events [sample_event] [sample_truth] (1 / 2) = (0, 1, 0, 0)"
    using classify_events_partition [of "[sample_event]" "[sample_truth]" "1 / 2"]
    unfolding e by simp
  from e s c show ?thesis by blast
qed

section \<open>Reasoning about runs\<close>

lemma bind_run_alt:
  "bind_run m f =
     (case fst m of
        Inl e \<Rightarrow> (Inl e, snd m)
      | Inr x \<Rightarrow> (fst (f x), snd m @ snd (f x)))"
  by (simp add: bind_run_def split: prod.splits sum.splits)

lemma on_success_bind:
  "on_success m (\<lambda>x tr. on_success (f x) (\<lambda>y tr'. Q y (tr @ tr'))) \<Longrightarrow> on_success (bind_run m f) Q"
  by (auto simp add: on_success_def bind_run_alt split: sum.splits)

lemma on_success_invoke:
  "(\<And>x. r = Inr x \<Longrightarrow> Q x [c]) \<Longrightarrow> on_success (invoke c r) Q"
  by (auto simp add: on_success_def invoke_def split: sum.splits)

lemma on_success_ret: "Q x [] \<Longrightarrow> on_success (ret x) Q"
  by (simp add: on_success_def ret_def)

lemma on_success_raise: "on_success (raise_err e) Q"
  by (simp add: on_success_def raise_err_def)

lemma on_success_subscript:
  "(\<And>v. map_of d k = Some v \<Longrightarrow> Q v []) \<Longrightarrow> on_success (subscript d k) Q"
  by (auto simp add: subscript_def on_success_ret on_success_raise split: option.splits)

lemma on_success_smooth:
  "(\<And>x. fst (smooth f a) = Inr x \<Longrightarrow> Q x (snd (smooth f a))) \<Longrightarrow> on_success (smooth f a) Q"
  by (auto simp add: on_success_def split: sum.splits)

lemma on_success_if:
  "(c \<Longrightarrow> on_success m Q) \<Longrightarrow> (\<not> c \<Longrightarrow> on_success m' Q) \<Longrightarrow> on_success (if c then m else m') Q"
  by simp

lemma on_success_let: "on_success (f v) Q \<Longrightarrow> on_success (Let v f) Q"
  by simp

lemma on_success_case_prod:
  "(\<And>a b. p = (a, b) \<Longrightarrow> on_success (f a b) Q) \<Longrightarrow> on_success (case_prod f p) Q"
  by (cases p) simp

lemma snd_map_run_invoke:
  "set (snd (map_run (\<lambda>x. invoke c (g x)) xs)) \<subseteq> {c}"
proof (induction xs)
  case Nil
  show ?case by (simp add: ret_def)
next
  case (Cons x xs)
  then show ?case
    by (auto simp add: bind_run_alt invoke_def ret_def split: sum.splits)
qed

lemma snd_smooth: "set (snd (smooth f a)) \<subseteq> {Call_filter_butterworth}"
  using snd_map_run_invoke [of Call_filter_butterworth f]
  by (auto simp add: smooth_def bind_run_alt lift_def ret_def split: sum.splits)

lemma smooth_no_plot: "filter is_plot (snd (smooth f a)) = []"
  using snd_smooth [of f a] by (auto simp add: filter_empty_conv is_plot_def)

lemma smooth_no_metric: "filter is_metric_call (snd (smooth f a)) = []"
  using snd_smooth [of f a] by (auto simp add: filter_empty_conv is_metric_call_def)

lemma smooth_no_classify: "count_list (snd (smooth f a)) Call_classify_events = 0"
  using snd_smooth [of f a] by (auto simp add: count_list_0_iff)

lemma same_plots_bind:
  "(\<And>x. fst m = Inr x \<Longrightarrow> same_plots (f x) (g x)) \<Longrightarrow> same_plots (bind_run m f) (bind_run m g)"
  by (auto simp add: same_plots_def bind_run_alt split: sum.splits)

lemma same_plots_let: "same_plots (f v) (g w) \<Longrightarrow> same_plots (Let v f) (Let w g)"
  by simp

lemma same_plots_case_prod:
  "(\<And>a b. same_plots (f a b) (g a b)) \<Longrightarrow> same_plots (case_prod f p) (case_prod g p)"
  by (cases p) simp

lemma same_plots_if:
  "(c \<Longrightarrow> same_plots m m') \<Longrightarrow> (\<not> c \<Longrightarrow> same_plots n n')
   \<Longrightarrow> same_plots (if c then m else n) (if c then m' else n')"
  by simp

lemma same_plots_raise: "same_plots (raise_err e) (raise_err e')"
  by (simp add: same_plots_def raise_err_def)

lemma metrics_tail_no_plot:
  "filter is_plot (snd (bind_run (invoke Call_detection_ratio r1) (\<lambda>dr.
      bind_run (invoke Call_reliability r2) (\<lambda>rel.
      bind_run (invoke Call_erer r3) (\<lambda>er. ret (h dr rel er)))))) = []"
  by (simp add: bind_run_alt invoke_def ret_def is_plot_def split: sum.splits)

lemma same_plots_tail:
  "same_plots
     (if c then bind_run (invoke Call_detection_ratio r1) (\<lambda>dr.
        bind_run (invoke Call_reliability r2) (\<lambda>rel.
        bind_run (invoke Call_erer r3) (\<lambda>er. ret (h dr rel er)))) else ret r)
     (if c' then bind_run (invoke Call_detection_ratio r1') (\<lambda>dr.
        bind_run (invoke Call_reliability r2') (\<lambda>rel.
        bind_run (invoke Call_erer r3') (\<lambda>er. ret (h' dr rel er)))) else ret r')"
  unfolding same_plots_def
  by (simp only: metrics_tail_no_plot if_distrib [of snd] if_distrib [of "filter is_plot"])
     (simp add: ret_def)

section \<open>The fields of the result bundle\<close>

lemma fields_for_ICSD:
  "fields_for ''ICSD'' = {''Insertions'', ''corrects'', ''substitutions'', ''deletions''}"
  by (simp add: fields_for_def)

lemma fields_for_trust_metrics:
  "fields_for ''trust_metrics'' = {''DR'', ''Reliability'', ''ERER''}"
  by (simp add: fields_for_def)

lemma fields_for_other:
  "k \<noteq> ''ICSD'' \<Longrightarrow> k \<noteq> ''trust_metrics'' \<Longrightarrow>
   fields_for k =
     (if k \<in> {''transformed_data'', ''prediction_probas'', ''pred_stats'',
               ''interpolated_probas'', ''smoothed_probas'', ''thresholded_probas'',
               ''figures''} then {k} else {})"
  by (simp only: fields_for_def if_False)

lemma in_fields_for:
  "x \<in> fields_for k \<longleftrightarrow>
     (k = ''ICSD'' \<and> x \<in> {''Insertions'', ''corrects'', ''substitutions'', ''deletions''})
   \<or> (k = ''trust_metrics'' \<and> x \<in> {''DR'', ''Reliability'', ''ERER''})
   \<or> (x = k \<and> k \<in> {''transformed_data'', ''prediction_probas'', ''pred_stats'',
                     ''interpolated_probas'', ''smoothed_probas'', ''thresholded_probas'',
                     ''figures''})"
proof (cases "k = ''ICSD''")
  case True
  then show ?thesis by (simp add: fields_for_ICSD)
next
  case nI: False
  show ?thesis
  proof (cases "k = ''trust_metrics''")
    case True
    then show ?thesis by (simp add: fields_for_trust_metrics)
  next
    case False
    show ?thesis
      unfolding fields_for_other [OF nI False] using nI False by (simp only: mem_Collect_eq) auto
  qed
qed

lemma bex_three_cases:
  "(\<exists>k\<in>S. (k = a \<and> P) \<or> (k = b \<and> Q) \<or> (x = k \<and> k \<in> K))
   \<longleftrightarrow> (a \<in> S \<and> P) \<or> (b \<in> S \<and> Q) \<or> (x \<in> S \<and> x \<in> K)"
  by blast

lemma in_fields_Union:
  "x \<in> (\<Union>k\<in>S. fields_for k) \<longleftrightarrow>
     (''ICSD'' \<in> S \<and> x \<in> {''Insertions'', ''corrects'', ''substitutions'', ''deletions''})
   \<or> (''trust_metrics'' \<in> S \<and> x \<in> {''DR'', ''Reliability'', ''ERER''})
   \<or> (x \<in> S \<and> x \<in> {''transformed_data'', ''prediction_probas'', ''pred_stats'',
                     ''interpolated_probas'', ''smoothed_probas'', ''thresholded_probas'',
                     ''figures''})"
  unfolding UN_iff in_fields_for by (rule bex_three_cases)

lemma in_dom_put_if:
  "x \<in> dom (put_if opts k f v r) \<longleftrightarrow> x \<in> dom r \<or> (k \<in> set opts \<and> x = f)"
  by (auto simp add: put_if_def)

lemma dom_chain_plain:
  assumes F: "\<And>x. x \<in> FS \<longleftrightarrow>
       (i \<in> set opts \<and> x \<in> {f1, f2, f3, f4})
     \<or> (t \<in> set opts \<and> x \<in> {g1, g2, g3})
     \<or> (x \<in> set opts \<and> x \<in> {k1, k2, k3, k4, k5, k6, k7})"
    and t: "t \<notin> set opts"
  shows "dom (put_if opts i f4 v11 (put_if opts i f3 v10 (put_if opts i f2 v9
          (put_if opts i f1 v8 (put_if opts k7 k7 v7 (put_if opts k6 k6 v6
          (put_if opts k5 k5 v5 (put_if opts k4 k4 v4 (put_if opts k3 k3 v3
          (put_if opts k2 k2 v2 (put_if opts k1 k1 v1 Map.empty))))))))))) = FS"
proof (rule set_eqI)
  fix x
  show "x \<in> dom (put_if opts i f4 v11 (put_if opts i f3 v10 (put_if opts i f2 v9
          (put_if opts i f1 v8 (put_if opts k7 k7 v7 (put_if opts k6 k6 v6
          (put_if opts k5 k5 v5 (put_if opts k4 k4 v4 (put_if opts k3 k3 v3
          (put_if opts k2 k2 v2 (put_if opts k1 k1 v1 Map.empty)))))))))))
        \<longleftrightarrow> x \<in> FS"
    unfolding F in_dom_put_if using t by auto
qed

lemma dom_chain_metrics:
  assumes F: "\<And>x. x \<in> FS \<longleftrightarrow>
       (i \<in> set opts \<and> x \<in> {f1, f2, f3, f4})
     \<or> (t \<in> set opts \<and> x \<in> {g1, g2, g3})
     \<or> (x \<in> set opts \<and> x \<in> {k1, k2, k3, k4, k5, k6, k7})"
    and t: "t \<in> set opts"
  shows "dom ((put_if opts i f4 v11 (put_if opts i f3 v10 (put_if opts i f2 v9
          (put_if opts i f1 v8 (put_if opts k7 k7 v7 (put_if opts k6 k6 v6
          (put_if opts k5 k5 v5 (put_if opts k4 k4 v4 (put_if opts k3 k3 v3
          (put_if opts k2 k2 v2 (put_if opts k1 k1 v1 Map.empty)))))))))))
            (g1 \<mapsto> w1, g2 \<mapsto> w2, g3 \<mapsto> w3)) = FS"
  (is "dom (?c(g1 \<mapsto> w1, g2 \<mapsto> w2, g3 \<mapsto> w3)) = FS")
proof (rule set_eqI)
  fix x
  have a: "x \<in> dom (?c(g1 \<mapsto> w1, g2 \<mapsto> w2, g3 \<mapsto> w3))
           \<longleftrightarrow> x = g3 \<or> x = g2 \<or> x = g1 \<or> x \<in> dom ?c"
    by (simp only: dom_fun_upd option.simps if_False insert_iff)
  show "x \<in> dom (?c(g1 \<mapsto> w1, g2 \<mapsto> w2, g3 \<mapsto> w3)) \<longleftrightarrow> x \<in> FS"
    unfolding a F in_dom_put_if using t by auto
qed

section \<open>What a successful run of robustness\_analysis has done\<close>

lemma ra_summary:
  "on_success (robustness_analysis env a) (\<lambda>res tr.
     dom res = (\<Union>k\<in>set (options_or_default (options_to_include a)). fields_for k)
   \<and> filter is_plot tr =
       [Call_plot_prediction_probabilities,
        Call_plot_signal ''Interpolated Prediction Probabilities'',
        Call_plot_signal ''Thresholded Interpolated Prediction Probabilities'']
   \<and> filter is_metric_call tr =
       (if ''trust_metrics'' \<in> set (options_or_default (options_to_include a))
        then [Call_detection_ratio, Call_reliability, Call_erer] else [])
   \<and> count_list tr Call_classify_events = 1)"
  unfolding robustness_analysis_def
  apply (rule on_success_if)
  apply (rule on_success_raise)
  apply (rule on_success_let)
  apply (rule on_success_let)
  apply (rule on_success_bind)
  apply (rule on_success_invoke)
  apply (rule on_success_let)
  apply (rule on_success_bind)
  apply (rule on_success_invoke)
  apply (rule on_success_let)
  apply (rule on_success_bind)
  apply (rule on_success_subscript)
  apply (rule on_success_bind)
  apply (rule on_success_invoke)
  apply (rule on_success_bind)
  apply (rule on_success_invoke)
  apply (rule on_success_let)
  apply (rule on_success_bind)
  apply (rule on_success_smooth)
  apply (rule on_success_let)
  apply (rule on_success_bind)
  apply (rule on_success_invoke)
  apply (rule on_success_bind)
  apply (rule on_success_invoke)
  apply (rule on_success_bind)
  apply (rule on_success_invoke)
  apply (rule on_success_bind)
  apply (rule on_success_invoke)
  apply (rule on_success_case_prod)
  apply (rule on_success_let)
  apply (rule on_success_bind)
  apply (rule on_success_invoke)
  apply (rule on_success_let)
  apply (rule on_success_bind)
  apply (rule on_success_invoke)
  apply (rule on_success_bind)
  apply (rule on_success_invoke)
  apply (rule on_success_bind)
  apply (rule on_success_invoke)
  apply (rule on_success_case_prod)
  apply (rule on_success_case_prod)
  apply (rule on_success_case_prod)
  apply (rule on_success_let)
  apply (rule on_success_let)
  apply (rule on_success_let)
  apply (rule on_success_let)
  apply (rule on_success_if)
  subgoal
    apply (rule on_success_bind)
    apply (rule on_success_invoke)
    apply (rule on_success_bind)
    apply (rule on_success_invoke)
    apply (rule on_success_bind)
    apply (rule on_success_invoke)
    apply (rule on_success_ret)
    apply (thin_tac "_ = _")+
    apply (intro conjI)
    subgoal by (rule dom_chain_metrics [OF in_fields_Union])
    subgoal by (simp add: smooth_no_plot is_plot_def)
    subgoal by (simp add: smooth_no_metric is_metric_call_def)
    subgoal by (simp add: smooth_no_classify)
    done
  subgoal
    apply (rule on_success_ret)
    apply (thin_tac "_ = _")+
    apply (intro conjI)
    subgoal by (rule dom_chain_plain [OF in_fields_Union])
    subgoal by (simp add: smooth_no_plot is_plot_def)
    subgoal by (simp add: smooth_no_metric is_metric_call_def)
    subgoal by (simp add: smooth_no_classify)
    done
  done

lemma ra_same_plots:
  "same_plots (robustness_analysis env a)
              (robustness_analysis env (a\<lparr>options_to_include := o_t_i\<rparr>))"
  unfolding robustness_analysis_def
  apply (cases a)
  apply hypsubst
  apply (simp only: args.simps)
  apply (rule same_plots_if)
  apply (rule same_plots_raise)
  apply (rule same_plots_let)
  apply (rule same_plots_let)
  apply (rule same_plots_bind)
  apply (rule same_plots_let)
  apply (rule same_plots_bind)
  apply (rule same_plots_let)
  apply (rule same_plots_bind)
  apply (rule same_plots_bind)
  apply (rule same_plots_bind)
  apply (rule same_plots_let)
  apply (rule same_plots_bind)
  apply (rule same_plots_let)
  apply (rule same_plots_bind)
  apply (rule same_plots_bind)
  apply (rule same_plots_bind)
  apply (rule same_plots_bind)
  apply (rule same_plots_case_prod)
  apply (rule same_plots_let)
  apply (rule same_plots_bind)
  apply (rule same_plots_let)
  apply (rule same_plots_bind)
  apply (rule same_plots_bind)
  apply (rule same_plots_bind)
  apply (rule same_plots_case_prod)
  apply (rule same_plots_case_prod)
  apply (rule same_plots_case_prod)
  apply (rule same_plots_let)
  apply (rule same_plots_let)
  apply (rule same_plots_let)
  apply (rule same_plots_let)
  apply (rule same_plots_tail)
  done


lemma put_if_other: "f \<noteq> x \<Longrightarrow> put_if opts k f v r x = r x"
  by (simp add: put_if_def)

lemma put_if_same: "put_if opts k f v r f = (if k \<in> set opts then Some v else r f)"
  by (simp add: put_if_def)

lemma ra_figures:
  "on_success (robustness_analysis env a) (\<lambda>res tr.
     \<exists>prediction_probas pred_stats mean_probas f1 interpolated_probas smoothed_probas f2
        threshold_probas potential_events thresholded predicted_events f3.
       ext_generate_probabilities env (model a) (input_data a) (repeats a)
         = Inr prediction_probas
     \<and> ext_prediction_statistics env prediction_probas (metrics a) = Inr pred_stats
     \<and> map_of pred_stats ''mean_pred'' = Some mean_probas
     \<and> ext_plot_prediction_probabilities env mean_probas (sr a) (ws a)
         (overlap_percentage a) (class_names a) (figsize a) (x_axis a) (ground_truths a)
         = Inr f1
     \<and> ext_interpolate_probabilities env mean_probas (sr a) (ws a)
         (overlap_percentage a) (interp_choice a) = Inr interpolated_probas
     \<and> fst (smooth (\<lambda>cls_probas.
              ext_filter_butterworth env cls_probas (sr a) ''lowpass'' (cutoff a) 3)
            interpolated_probas) = Inr smoothed_probas
     \<and> ext_plot_signal env smoothed_probas (sr a) ''Interpolated Prediction Probabilities''
         (x_axis a) (class_names a) (figsize a) (ground_truths a) (class_names a) = Inr f2
     \<and> ext_apply_probability_threshold env smoothed_probas (prob_th a) = Inr threshold_probas
     \<and> ext_get_continuous_events env threshold_probas = Inr potential_events
     \<and> ext_apply_duration_threshold env threshold_probas potential_events (sr a) (dur_th a)
         = Inr (thresholded, predicted_events)
     \<and> ext_plot_signal env thresholded (sr a)
         ''Thresholded Interpolated Prediction Probabilities''
         (x_axis a) (class_names a) (figsize a) (ground_truths a) (class_names a) = Inr f3
     \<and> res ''figures'' =
         (if ''figures'' \<in> set (options_or_default (options_to_include a))
          then Some (Figures [(''pred_probas_fig'', f1), (''interp_probas_fig'', f2),
                              (''thresh_probas_fig'', f3)])
          else None))"
  unfolding robustness_analysis_def
  apply (rule on_success_if)
  apply (rule on_success_raise)
  apply (rule on_success_let)
  apply (rule on_success_let)
  apply (rule on_success_bind)
  apply (rule on_success_invoke)
  apply (rule on_success_let)
  apply (rule on_success_bind)
  apply (rule on_success_invoke)
  apply (rule on_success_let)
  apply (rule on_success_bind)
  apply (rule on_success_subscript)
  apply (rule on_success_bind)
  apply (rule on_success_invoke)
  apply (rule on_success_bind)
  apply (rule on_success_invoke)
  apply (rule on_success_let)
  apply (rule on_success_bind)
  apply (rule on_success_smooth)
  apply (rule on_success_let)
  apply (rule on_success_bind)
  apply (rule on_success_invoke)
  apply (rule on_success_bind)
  apply (rule on_success_invoke)
  apply (rule on_success_bind)
  apply (rule on_success_invoke)
  apply (rule on_success_bind)
  apply (rule on_success_invoke)
  apply (rule on_success_case_prod)
  apply (rule on_success_let)
  apply (rule on_success_bind)
  apply (rule on_success_invoke)
  apply (rule on_success_let)
  apply (rule on_success_bind)
  apply (rule on_success_invoke)
  apply (rule on_success_bind)
  apply (rule on_success_invoke)
  apply (rule on_success_bind)
  apply (rule on_success_invoke)
  apply (rule on_success_case_prod)
  apply (rule on_success_case_prod)
  apply (rule on_success_case_prod)
  apply (rule on_success_let)
  apply (rule on_success_let)
  apply (rule on_success_let)
  apply (rule on_success_let)
  apply (rule on_success_if)
  subgoal
    apply (rule on_success_bind)
    apply (rule on_success_invoke)
    apply (rule on_success_bind)
    apply (rule on_success_invoke)
    apply (rule on_success_bind)
    apply (rule on_success_invoke)
    apply (rule on_success_ret)
    apply hypsubst
    apply (rule exI)+
    apply (intro conjI)
    apply assumption
    apply assumption
    apply assumption
    apply assumption
    apply assumption
    apply assumption
    apply assumption
    apply assumption
    apply assumption
    apply assumption
    apply assumption
    apply (thin_tac "_ = _")+
    apply (simp add: put_if_other put_if_same)
    done
  subgoal
    apply (rule on_success_ret)
    apply hypsubst
    apply (rule exI)+
    apply (intro conjI)
    apply assumption
    apply assumption
    apply assumption
    apply assumption
    apply assumption
    apply assumption
    apply assumption
    apply assumption
    apply assumption
    apply assumption
    apply assumption
    apply (thin_tac "_ = _")+
    apply (simp add: put_if_other put_if_same)
    done
  done

section \<open>Properties of robustness\_analysis\<close>

lemma stand_ins_selected_succeeds:
  "\<not> isl (fst (robustness_analysis stand_ins (sample_args (Some [''ICSD'']))))"
  by code_simp

lemma stand_ins_default_succeeds:
  "\<not> isl (fst (robustness_analysis stand_ins (sample_args None)))"
  by code_simp



lemma Inr_projr: "\<not> isl r \<Longrightarrow> r = Inr (projr r)"
  by (cases r) simp_all

text \<open>
  C7. When \<open>input_data\<close> has fewer than two axes, \<open>robustness_analysis\<close> raises the
  \<^verbatim>\<open>ValueError\<close> at once: the result is the exception, no result bundle, and no
  collaborator (inference, statistics, interpolation, filter, thresholds, matcher,
  metrics, plots) has been called.
\<close>

theorem too_few_axes_rejected:
  "ndim (input_data a) < 2 \<Longrightarrow>
   robustness_analysis env a
     = (Inl (ValueError ''`input_data` must be at least 2D.''), [])"
  by (simp add: robustness_analysis_def raise_err_def)

theorem too_few_axes_rejected_witness:
  "ndim (input_data ((sample_args None)\<lparr>input_data := NDArray [4] [0, 0, 0, 0]\<rparr>)) < 2
   \<and> robustness_analysis stand_ins ((sample_args None)\<lparr>input_data := NDArray [4] [0, 0, 0, 0]\<rparr>)
     = (Inl (ValueError ''`input_data` must be at least 2D.''), [])"
proof -
  have h: "ndim (input_data ((sample_args None)\<lparr>input_data := NDArray [4] [0, 0, 0, 0]\<rparr>)) < 2"
    by (simp add: ndim_def)
  from h too_few_axes_rejected [OF h, of stand_ins] show ?thesis by simp
qed

text \<open>
  C5, as stated, fails twice. With the allow-list \<^verbatim>\<open>["ICSD"]\<close> the run succeeds and calls
  none of the three metric functions: the trust metrics are not computed unless
  \<^verbatim>\<open>"trust_metrics"\<close> is requested. With the empty allow-list the field
  \<^verbatim>\<open>"transformed_data"\<close> is populated although the list requests no key.
\<close>

theorem allow_list_counterexample:
  "\<not> isl (fst (robustness_analysis stand_ins (sample_args (Some [''ICSD'']))))
   \<and> filter is_metric_call
        (snd (robustness_analysis stand_ins (sample_args (Some [''ICSD''])))) = []
   \<and> \<not> isl (fst (robustness_analysis stand_ins (sample_args (Some []))))
   \<and> projr (fst (robustness_analysis stand_ins (sample_args (Some [])))) ''transformed_data''
       = Some (Array (NDArray [2, 2] [0, 0, 0, 0]))"
  by code_simp

text \<open>
  C5, amended. Take the effective allow-list: the list given, or the default list when
  none or the empty one is given. In the bundle a successful run returns, exactly the
  fields selected by the keys of the effective allow-list are populated. The matcher
  \<open>classify_events\<close> is called exactly once whatever the list; the three metric functions
  are called exactly when \<^verbatim>\<open>"trust_metrics"\<close> is in the effective allow-list.
\<close>

theorem allow_list_selects_fields:
  assumes "fst (robustness_analysis env a) = Inr res"
  shows "dom res = (\<Union>k\<in>set (options_or_default (options_to_include a)). fields_for k)
       \<and> count_list (snd (robustness_analysis env a)) Call_classify_events = 1
       \<and> filter is_metric_call (snd (robustness_analysis env a)) =
           (if ''trust_metrics'' \<in> set (options_or_default (options_to_include a))
            then [Call_detection_ratio, Call_reliability, Call_erer] else [])"
  using ra_summary [of env a] assms by (simp add: on_success_def)

theorem allow_list_selects_fields_witness:
  "fst (robustness_analysis stand_ins (sample_args (Some [''ICSD''])))
     = Inr (projr (fst (robustness_analysis stand_ins (sample_args (Some [''ICSD''])))))
   \<and> dom (projr (fst (robustness_analysis stand_ins (sample_args (Some [''ICSD''])))))
     = {''Insertions'', ''corrects'', ''substitutions'', ''deletions''}
   \<and> count_list (snd (robustness_analysis stand_ins (sample_args (Some [''ICSD'']))))
       Call_classify_events = 1
   \<and> filter is_metric_call
       (snd (robustness_analysis stand_ins (sample_args (Some [''ICSD''])))) = []"
proof -
  let ?run = "robustness_analysis stand_ins (sample_args (Some [''ICSD'']))"
  have ok: "fst ?run = Inr (projr (fst ?run))"
    using stand_ins_selected_succeeds by (rule Inr_projr)
  have opts: "options_or_default (options_to_include (sample_args (Some [''ICSD''])))
              = [''ICSD'']"
    by (simp add: options_or_default_def sample_args_def)
  have no_tm: "''trust_metrics'' \<notin> set [''ICSD'']"
    by simp
  show ?thesis
    using allow_list_selects_fields [OF ok] ok no_tm
    by (simp only: opts fields_for_ICSD list.set UN_insert UN_empty Un_empty_right if_False)
qed






text \<open>
  C10, as stated for every call, fails for a call that raises: with a one-axis
  \<open>input_data\<close> and the default allow-list, which holds \<^verbatim>\<open>"figures"\<close>, the call is refused at
  line 95 and none of the three plotting functions is invoked.
\<close>

theorem plots_counterexample:
  "isl (fst (robustness_analysis stand_ins
               ((sample_args None)\<lparr>input_data := NDArray [4] [0, 0, 0, 0]\<rparr>)))
   \<and> filter is_plot (snd (robustness_analysis stand_ins
               ((sample_args None)\<lparr>input_data := NDArray [4] [0, 0, 0, 0]\<rparr>))) = []
   \<and> ''figures'' \<in> set (options_or_default (options_to_include
               ((sample_args None)\<lparr>input_data := NDArray [4] [0, 0, 0, 0]\<rparr>)))"
  by code_simp

text \<open>
  C10, amended. The calls that draw figures do not depend on the allow-list: whatever
  \<open>options_to_include\<close> is, a run makes the same plotting calls in the same order. In
  every run that returns, \<open>plot_prediction_probabilities\<close> and the two \<open>plot_signal\<close>
  calls have been made, in this order and no other plotting call, each on the data of its
  stage (the mean probabilities, the smoothed curve, the thresholded curve), and each has
  returned its figure object, also when \<^verbatim>\<open>"figures"\<close> is not requested. The key decides only
  whether the returned dictionary holds, under \<^verbatim>\<open>"figures"\<close>, exactly these three figure
  objects or has no such field.
\<close>

theorem plots_drawn_whatever_the_allow_list:
  "filter is_plot (snd (robustness_analysis env a))
     = filter is_plot (snd (robustness_analysis env (a\<lparr>options_to_include := o_t_i\<rparr>)))
   \<and> (fst (robustness_analysis env a) = Inr res \<longrightarrow>
        filter is_plot (snd (robustness_analysis env a)) =
          [Call_plot_prediction_probabilities,
           Call_plot_signal ''Interpolated Prediction Probabilities'',
           Call_plot_signal ''Thresholded Interpolated Prediction Probabilities'']
        \<and> (''figures'' \<in> dom res
             \<longleftrightarrow> ''figures'' \<in> set (options_or_default (options_to_include a)))
        \<and> (\<exists>prediction_probas pred_stats mean_probas f1 interpolated_probas smoothed_probas
              f2 threshold_probas potential_events thresholded predicted_events f3.
             ext_generate_probabilities env (model a) (input_data a) (repeats a)
               = Inr prediction_probas
           \<and> ext_prediction_statistics env prediction_probas (metrics a) = Inr pred_stats
           \<and> map_of pred_stats ''mean_pred'' = Some mean_probas
           \<and> ext_plot_prediction_probabilities env mean_probas (sr a) (ws a)
               (overlap_percentage a) (class_names a) (figsize a) (x_axis a)
               (ground_truths a) = Inr f1
           \<and> ext_interpolate_probabilities env mean_probas (sr a) (ws a)
               (overlap_percentage a) (interp_choice a) = Inr interpolated_probas
           \<and> fst (smooth (\<lambda>cls_probas.
                    ext_filter_butterworth env cls_probas (sr a) ''lowpass'' (cutoff a) 3)
                  interpolated_probas) = Inr smoothed_probas
           \<and> ext_plot_signal env smoothed_probas (sr a)
               ''Interpolated Prediction Probabilities''
               (x_axis a) (class_names a) (figsize a) (ground_truths a) (class_names a)
               = Inr f2
           \<and> ext_apply_probability_threshold env smoothed_probas (prob_th a)
               = Inr threshold_probas
           \<and> ext_get_continuous_events env threshold_probas = Inr potential_events
           \<and> ext_apply_duration_threshold env threshold_probas potential_events (sr a)
               (dur_th a) = Inr (thresholded, predicted_events)
           \<and> ext_plot_signal env thresholded (sr a)
               ''Thresholded Interpolated Prediction Probabilities''
               (x_axis a) (class_names a) (figsize a) (ground_truths a) (class_names a)
               = Inr f3
           \<and> res ''figures'' =
               (if ''figures'' \<in> set (options_or_default (options_to_include a))
                then Some (Figures [(''pred_probas_fig'', f1), (''interp_probas_fig'', f2),
                                    (''thresh_probas_fig'', f3)])
                else None)))"
proof (intro conjI impI)
  show "filter is_plot (snd (robustness_analysis env a))
     = filter is_plot (snd (robustness_analysis env (a\<lparr>options_to_include := o_t_i\<rparr>)))"
    using ra_same_plots [of env a o_t_i] by (simp only: same_plots_def)
next
  assume ok: "fst (robustness_analysis env a) = Inr res"
  from ra_summary [of env a] ok
  have s: "dom res = (\<Union>k\<in>set (options_or_default (options_to_include a)). fields_for k)
           \<and> filter is_plot (snd (robustness_analysis env a)) =
          [Call_plot_prediction_probabilities,
           Call_plot_signal ''Interpolated Prediction Probabilities'',
           Call_plot_signal ''Thresholded Interpolated Prediction Probabilities'']"
    by (simp add: on_success_def)
  from s show "filter is_plot (snd (robustness_analysis env a)) =
          [Call_plot_prediction_probabilities,
           Call_plot_signal ''Interpolated Prediction Probabilities'',
           Call_plot_signal ''Thresholded Interpolated Prediction Probabilities'']"
    by (rule conjunct2)
  have "''figures'' \<in> (\<Union>k\<in>set (options_or_default (options_to_include a)). fields_for k)
        \<longleftrightarrow> ''figures'' \<in> set (options_or_default (options_to_include a))"
    unfolding in_fields_Union by simp
  with s show "''figures'' \<in> dom res
             \<longleftrightarrow> ''figures'' \<in> set (options_or_default (options_to_include a))"
    by simp
  from ra_figures [of env a] ok
  show "\<exists>prediction_probas pred_stats mean_probas f1 interpolated_probas smoothed_probas
              f2 threshold_probas potential_events thresholded predicted_events f3.
             ext_generate_probabilities env (model a) (input_data a) (repeats a)
               = Inr prediction_probas
           \<and> ext_prediction_statistics env prediction_probas (metrics a) = Inr pred_stats
           \<and> map_of pred_stats ''mean_pred'' = Some mean_probas
           \<and> ext_plot_prediction_probabilities env mean_probas (sr a) (ws a)
               (overlap_percentage a) (class_names a) (figsize a) (x_axis a)
               (ground_truths a) = Inr f1
           \<and> ext_interpolate_probabilities env mean_probas (sr a) (ws a)
               (overlap_percentage a) (interp_choice a) = Inr interpolated_probas
           \<and> fst (smooth (\<lambda>cls_probas.
                    ext_filter_butterworth env cls_probas (sr a) ''lowpass'' (cutoff a) 3)
                  interpolated_probas) = Inr smoothed_probas
           \<and> ext_plot_signal env smoothed_probas (sr a)
               ''Interpolated Prediction Probabilities''
               (x_axis a) (class_names a) (figsize a) (ground_truths a) (class_names a)
               = Inr f2
           \<and> ext_apply_probability_threshold env smoothed_probas (prob_th a)
               = Inr threshold_probas
           \<and> ext_get_continuous_events env threshold_probas = Inr potential_events
           \<and> ext_apply_duration_threshold env threshold_probas potential_events (sr a)
               (dur_th a) = Inr (thresholded, predicted_events)
           \<and> ext_plot_signal env thresholded (sr a)
               ''Thresholded Interpolated Prediction Probabilities''
               (x_axis a) (class_names a) (figsize a) (ground_truths a) (class_names a)
               = Inr f3
           \<and> res ''figures'' =
               (if ''figures'' \<in> set (options_or_default (options_to_include a))
                then Some (Figures [(''pred_probas_fig'', f1), (''interp_probas_fig'', f2),
                                    (''thresh_probas_fig'', f3)])
                else None)"
    by (simp only: on_success_def sum.case snd_conv fst_conv)
qed

theorem plots_drawn_whatever_the_allow_list_witness:
  "fst (robustness_analysis stand_ins (sample_args (Some [''ICSD''])))
     = Inr (projr (fst (robustness_analysis stand_ins (sample_args (Some [''ICSD''])))))
   \<and> filter is_plot (snd (robustness_analysis stand_ins (sample_args (Some [''ICSD'']))))
     = [Call_plot_prediction_probabilities,
        Call_plot_signal ''Interpolated Prediction Probabilities'',
        Call_plot_signal ''Thresholded Interpolated Prediction Probabilities'']
   \<and> ''figures'' \<notin> dom (projr (fst (robustness_analysis stand_ins
                                       (sample_args (Some [''ICSD''])))))
   \<and> projr (fst (robustness_analysis stand_ins (sample_args None))) ''figures''
       = Some (Figures [(''pred_probas_fig'', ''pred_probas''),
                        (''interp_probas_fig'', ''Interpolated Prediction Probabilities''),
                        (''thresh_probas_fig'',
                         ''Thresholded Interpolated Prediction Probabilities'')])"
proof -
  let ?run = "robustness_analysis stand_ins (sample_args (Some [''ICSD'']))"
  have ok: "fst ?run = Inr (projr (fst ?run))"
    using stand_ins_selected_succeeds by (rule Inr_projr)
  have opts: "options_or_default (options_to_include (sample_args (Some [''ICSD''])))
              = [''ICSD'']"
    by (simp add: options_or_default_def sample_args_def)
  have nf: "''figures'' \<notin> set [''ICSD'']"
    by simp
  have "filter is_plot (snd ?run) =
          [Call_plot_prediction_probabilities,
           Call_plot_signal ''Interpolated Prediction Probabilities'',
           Call_plot_signal ''Thresholded Interpolated Prediction Probabilities'']
        \<and> (''figures'' \<in> dom (projr (fst ?run))
             \<longleftrightarrow> ''figures'' \<in> set (options_or_default
                                       (options_to_include (sample_args (Some [''ICSD''])))))"
    using plots_drawn_whatever_the_allow_list
            [of stand_ins "sample_args (Some [''ICSD''])" None "projr (fst ?run)"] ok
    by blast
  then have a: "filter is_plot (snd ?run) =
          [Call_plot_prediction_probabilities,
           Call_plot_signal ''Interpolated Prediction Probabilities'',
           Call_plot_signal ''Thresholded Interpolated Prediction Probabilities'']
        \<and> ''figures'' \<notin> dom (projr (fst ?run))"
    unfolding opts using nf by blast
  have b: "projr (fst (robustness_analysis stand_ins (sample_args None))) ''figures''
       = Some (Figures [(''pred_probas_fig'', ''pred_probas''),
                        (''interp_probas_fig'', ''Interpolated Prediction Probabilities''),
                        (''thresh_probas_fig'',
                         ''Thresholded Interpolated Prediction Probabilities'')])"
    by code_simp
  from ok a b show ?thesis by blast
qed

section \<open>The smoothing stage and the shape of the curve\<close>

lemma shape_transpose_nd: "shape (transpose_nd a) = rev (shape a)"
  by (simp add: transpose_nd_def)

lemma length_indices: "length (indices sh) = prod_list sh"
proof (induction sh)
  case Nil
  show ?case by simp
next
  case (Cons d ds)
  have "length (concat (map (\<lambda>i. map ((#) i) (indices ds)) [0..<d])) = d * length (indices ds)"
    by (induction d) (simp_all add: length_concat)
  with Cons show ?case by simp
qed

lemma wf_transpose_nd: "wf_ndarray (transpose_nd a)"
  by (simp add: wf_ndarray_def transpose_nd_def length_indices)

lemma iterate_rows:
  assumes "shape b = [c, n]"
  shows "\<exists>rows. iterate b = Inr rows \<and> length rows = c \<and> list_all (\<lambda>r. shape r = [n]) rows"
  using assms by (simp add: iterate_def list_all_iff)

lemma map_run_filter:
  assumes "\<forall>x. shape x = sh \<longrightarrow> (\<exists>y. lowpass x = Inr y \<and> shape y = sh)"
    and "list_all (\<lambda>r. shape r = sh) rows"
  shows "\<exists>ys. map_run (\<lambda>r. invoke c (lowpass r)) rows = (Inr ys, replicate (length rows) c)
              \<and> length ys = length rows \<and> list_all (\<lambda>y. shape y = sh) ys"
  using assms(2)
proof (induction rows)
  case Nil
  show ?case by (simp add: ret_def)
next
  case (Cons r rows)
  from Cons.prems have r: "shape r = sh" and rest: "list_all (\<lambda>r. shape r = sh) rows"
    by simp_all
  from assms(1) r obtain y where y: "lowpass r = Inr y" "shape y = sh"
    by blast
  from Cons.IH [OF rest] obtain ys where
    ys: "map_run (\<lambda>r. invoke c (lowpass r)) rows = (Inr ys, replicate (length rows) c)"
        "length ys = length rows" "list_all (\<lambda>y. shape y = sh) ys"
    by blast
  have "map_run (\<lambda>r. invoke c (lowpass r)) (r # rows)
          = (Inr (y # ys), replicate (length (r # rows)) c)"
    by (simp only: map_run.simps ys y) (simp add: bind_run_def invoke_def ret_def)
  with y ys show ?case by simp
qed

lemma np_array_stack:
  assumes "ys \<noteq> []" "list_all (\<lambda>y. shape y = sh) ys"
  shows "\<exists>st. np_array ys = Inr st \<and> shape st = [length ys] @ sh"
proof (cases ys)
  case Nil
  with assms(1) show ?thesis by simp
next
  case (Cons y rest)
  from assms(2) Cons have "shape y = sh" by simp
  with assms(2) have "list_all (\<lambda>z. shape z = shape y) ys"
    by simp
  with Cons \<open>shape y = sh\<close> show ?thesis
    by (simp add: np_array_def)
qed

text \<open>
  C8, as stated, fails for a curve without class channels: the list of filtered channels
  is empty, \<^verbatim>\<open>array([])\<close> has the single axis of length 0, and the three samples of the
  curve are gone, under a filter that returns every signal unchanged.
\<close>

theorem smooth_no_channels_counterexample:
  "smooth Inr (NDArray [3, 0] []) = (Inr (NDArray [0] []), [])
   \<and> shape (NDArray [0] []) \<noteq> shape (NDArray [3, 0] [])"
  by code_simp

text \<open>
  C8, amended. For every curve of \<open>n\<close> samples and at least one class channel, if the
  external low-pass filter returns, for every signal of \<open>n\<close> samples, a signal of \<open>n\<close>
  samples, then the smoothing stage returns a curve of the same shape, \<open>n\<close> samples by
  \<open>c\<close> channels, having called the filter once per channel.
\<close>

theorem smooth_preserves_shape:
  assumes "shape curve = [n, c]" and "0 < c"
    and "\<forall>x. shape x = [n] \<longrightarrow> (\<exists>y. lowpass x = Inr y \<and> shape y = [n])"
  shows "\<exists>r. smooth lowpass curve = (Inr r, replicate c Call_filter_butterworth)
            \<and> shape r = [n, c] \<and> wf_ndarray r"
proof -
  have "shape (transpose_nd curve) = [c, n]"
    using assms(1) by (simp add: shape_transpose_nd)
  then obtain rows where rows: "iterate (transpose_nd curve) = Inr rows" "length rows = c"
      "list_all (\<lambda>r. shape r = [n]) rows"
    using iterate_rows by blast
  from map_run_filter [OF assms(3) rows(3), of Call_filter_butterworth] rows(2)
  obtain ys where ys:
      "map_run (\<lambda>r. invoke Call_filter_butterworth (lowpass r)) rows
         = (Inr ys, replicate c Call_filter_butterworth)"
      "length ys = c" "list_all (\<lambda>y. shape y = [n]) ys"
    by auto
  from ys(2) assms(2) have "ys \<noteq> []" by auto
  from np_array_stack [OF this ys(3)] ys(2)
  obtain st where st: "np_array ys = Inr st" "shape st = [c, n]"
    by auto
  have run: "smooth lowpass curve = (Inr (transpose_nd st), replicate c Call_filter_butterworth)"
    by (simp add: smooth_def bind_run_def lift_def ret_def rows(1) ys(1) st(1))
  have "shape (transpose_nd st) = [n, c]"
    using st(2) by (simp add: shape_transpose_nd)
  with run wf_transpose_nd [of st] show ?thesis by blast
qed

theorem smooth_preserves_shape_witness:
  "shape (NDArray [2, 3] [1, 2, 3, 4, 5, 6]) = [2, 3] \<and> (0::nat) < 3
   \<and> (\<exists>r. smooth Inr (NDArray [2, 3] [1, 2, 3, 4, 5, 6])
             = (Inr r, replicate 3 Call_filter_butterworth)
          \<and> shape r = [2, 3] \<and> wf_ndarray r)"
proof -
  have h1: "shape (NDArray [2, 3] [1, 2, 3, 4, 5, 6]) = [2, 3]" by simp
  have h2: "(0::nat) < 3" by simp
  have h3: "\<forall>x. shape x = [2] \<longrightarrow> (\<exists>y. Inr x = (Inr y :: error + ndarray) \<and> shape y = [2])"
    by simp
  from h1 h2 smooth_preserves_shape [OF h1 h2 h3] show ?thesis by blast
qed

section \<open>The batch variants\<close>

text \<open>
  The keyword list both variants pass names \<^verbatim>\<open>sample_rate\<close>, \<^verbatim>\<open>perc_overlap\<close> and
  \<^verbatim>\<open>duration_th\<close>, which are not parameters of \<^verbatim>\<open>robustness_analysis\<close> (they are \<^verbatim>\<open>sr\<close>,
  \<^verbatim>\<open>overlap_percentage\<close> and \<^verbatim>\<open>dur_th\<close> there): the call is refused whatever the values.
\<close>

lemma keyword_call_refused:
  "robustness_analysis_call env (instance_keywords b x gt_events o_t_i)
     = raise_err (TypeError
         ''robustness_analysis() got an unexpected keyword argument sample_rate'')"
  by (simp add: robustness_analysis_call_def instance_keywords_def parameter_names_def)

lemma many_loop_raises:
  "isl (fst (many_loop env b X i (entry # rest) results))"
  by (cases entry)
     (simp add: keyword_call_refused bind_run_alt item_def raise_err_def ret_def)

lemma many_returns_only_empty:
  assumes "fst (robustness_analysis_many env b X) = Inr results"
  shows "results = Map.empty
       \<and> ext_get_gt_events_from_dict env (m_events b) (m_class_names b) (m_sample_rate b)
           = Inr []"
proof (cases "ext_get_gt_events_from_dict env (m_events b) (m_class_names b) (m_sample_rate b)")
  case (Inl e)
  with assms show ?thesis
    by (simp add: robustness_analysis_many_def bind_run_alt invoke_def)
next
  case (Inr d)
  show ?thesis
  proof (cases d)
    case Nil
    with Inr assms show ?thesis
      by (simp add: robustness_analysis_many_def bind_run_alt invoke_def ret_def)
  next
    case (Cons entry rest)
    have "isl (fst (many_loop env b X 0 (entry # rest) Map.empty))"
      by (rule many_loop_raises)
    with Inr Cons assms show ?thesis
      by (simp add: robustness_analysis_many_def bind_run_alt invoke_def)
  qed
qed

lemma bind_run_raises: "isl (fst m) \<Longrightarrow> isl (fst (bind_run m f))"
  by (cases "fst m") (simp_all add: bind_run_alt)

lemma bind_run_raises_later: "(\<And>x. isl (fst (f x))) \<Longrightarrow> isl (fst (bind_run m f))"
  by (simp add: bind_run_alt split: sum.splits)

lemma batch_loop_raises:
  "isl (fst (batch_loop env b ds opts i (entry # rest) results))"
proof (cases entry)
  case (Pair filename gt_events)
  show ?thesis
    unfolding Pair batch_loop.simps Let_def
    apply (rule bind_run_raises_later)
    apply (rule bind_run_raises_later)
    apply (rule bind_run_raises_later)
    apply (rule bind_run_raises_later)
    apply (rule bind_run_raises)
    apply (simp add: keyword_call_refused raise_err_def)
    done
qed

lemma batch_returns_only_empty:
  assumes "fst (robustness_analysis_batch env b ds) = Inr results"
  shows "results = Map.empty
       \<and> ext_get_gt_events_from_dict env (m_events b) (m_class_names b) (m_sample_rate b)
           = Inr []"
proof (cases "ext_get_gt_events_from_dict env (m_events b) (m_class_names b) (m_sample_rate b)")
  case (Inl e)
  with assms show ?thesis
    by (simp add: robustness_analysis_batch_def bind_run_alt invoke_def Let_def)
next
  case (Inr d)
  show ?thesis
  proof (cases d)
    case Nil
    with Inr assms show ?thesis
      by (simp add: robustness_analysis_batch_def bind_run_alt invoke_def ret_def Let_def)
  next
    case (Cons entry rest)
    have "isl (fst (batch_loop env b ds (options_or_default (m_options_to_include b)) 0
                      (entry # rest) Map.empty))"
      by (rule batch_loop_raises)
    with Inr Cons assms show ?thesis
      by (simp add: robustness_analysis_batch_def bind_run_alt invoke_def Let_def)
  qed
qed

text \<open>
  C6 does not hold of the code. On a collection of one instance, \<open>rec1.wav\<close>, both batch
  variants raise \<^verbatim>\<open>TypeError\<close> at their call of \<^verbatim>\<open>robustness_analysis\<close> and return no
  mapping, although \<^verbatim>\<open>robustness_analysis\<close> itself succeeds on that instance.
\<close>

theorem batch_variants_raise_TypeError:
  "robustness_analysis_many stand_ins (sample_many_args None) [NDArray [2, 2] [0, 0, 0, 0]]
     = (Inl (TypeError ''robustness_analysis() got an unexpected keyword argument sample_rate''),
        [Call_get_gt_events_from_dict])
   \<and> robustness_analysis_batch stand_ins (sample_many_args None) sample_dataset
     = (Inl (TypeError ''robustness_analysis() got an unexpected keyword argument sample_rate''),
        [Call_get_gt_events_from_dict, Call_plot_signal ''Pilot Signal'',
         Call_pipeline_transform])
   \<and> \<not> isl (fst (robustness_analysis stand_ins (sample_args None)))"
proof (intro conjI)
  show "robustness_analysis_many stand_ins (sample_many_args None) [NDArray [2, 2] [0, 0, 0, 0]]
     = (Inl (TypeError ''robustness_analysis() got an unexpected keyword argument sample_rate''),
        [Call_get_gt_events_from_dict])"
    by (simp add: robustness_analysis_many_def keyword_call_refused stand_ins_def
          sample_many_args_def bind_run_def invoke_def item_def raise_err_def ret_def)
  show "robustness_analysis_batch stand_ins (sample_many_args None) sample_dataset
     = (Inl (TypeError ''robustness_analysis() got an unexpected keyword argument sample_rate''),
        [Call_get_gt_events_from_dict, Call_plot_signal ''Pilot Signal'',
         Call_pipeline_transform])"
    by (simp add: robustness_analysis_batch_def keyword_call_refused stand_ins_def
          sample_many_args_def sample_dataset_def options_or_default_def OPTIONS_def
          slice1_def py_item_def set_pilot_signal_def
          bind_run_def invoke_def item_def raise_err_def ret_def)
  show "\<not> isl (fst (robustness_analysis stand_ins (sample_args None)))"
    by (rule stand_ins_default_succeeds)
qed

end
